theory Spec2Isabelle
  imports Main "HOL-Library.Sublist"
begin

section \<open>Data model of the team pipeline\<close>

text \<open>
  The type declarations of \<^verbatim>\<open>types.ts\<close> are read off the way \<^verbatim>\<open>state.ts\<close> and
  \<^verbatim>\<open>transitions.ts\<close> build and inspect the values. A phase is one of eight string
  literals; \<open>phase_str\<close> gives the literal back where the code interpolates a phase into
  a message.
\<close>

datatype TeamPipelinePhase =
  team_plan | team_prd | team_exec | team_verify | team_fix | complete | failed | cancelled

fun phase_str :: "TeamPipelinePhase \<Rightarrow> string" where
  "phase_str team_plan = ''team-plan''"
| "phase_str team_prd = ''team-prd''"
| "phase_str team_exec = ''team-exec''"
| "phase_str team_verify = ''team-verify''"
| "phase_str team_fix = ''team-fix''"
| "phase_str complete = ''complete''"
| "phase_str failed = ''failed''"
| "phase_str cancelled = ''cancelled''"

text \<open>
  A history entry is \<^verbatim>\<open>{phase, entered_at, reason?}\<close>. Its fields carry the prefix
  \<open>entry_\<close> where the pipeline state or the transition result has a field of the same
  name. An absent optional property and \<^verbatim>\<open>null\<close> are both \<open>None\<close>.
\<close>

record TeamPhaseHistoryEntry =
  entry_phase :: TeamPipelinePhase
  entered_at :: string
  entry_reason :: "string option"

record TeamArtifacts =
  plan_path :: "string option"
  prd_path :: "string option"
  verify_report_path :: "string option"

text \<open>
  The counters are JavaScript numbers holding integers; they are modelled as unbounded
  integers (the code never produces a fractional value, and \<open>attempt + 1\<close> is exact
  far beyond any retry count).
\<close>

record TeamExecution =
  workers_total :: int
  workers_active :: int
  tasks_total :: int
  tasks_completed :: int
  tasks_failed :: int

record TeamFixLoop =
  attempt :: int
  max_attempts :: int
  last_failure_reason :: "string option"

record TeamCancel =
  requested :: bool
  requested_at :: "string option"
  preserve_for_resume :: bool

record TeamPipelineState =
  schema_version :: int
  mode :: string
  active :: bool
  session_id :: string
  project_path :: string
  phase :: TeamPipelinePhase
  phase_history :: "TeamPhaseHistoryEntry list"
  iteration :: int
  max_iterations :: int
  artifacts :: TeamArtifacts
  execution :: TeamExecution
  fix_loop :: TeamFixLoop
  cancel :: TeamCancel
  started_at :: string
  updated_at :: string
  completed_at :: "string option"

record TeamTransitionResult =
  ok :: bool
  state :: TeamPipelineState
  reason :: "string option"

section \<open>The wall clock\<close>

text \<open>
  \<^verbatim>\<open>nowIso()\<close> reads the wall clock. A call of a pipeline function receives the
  readings it will see as a sequence: \<open>now 0\<close> is its first reading, \<open>now 1\<close> the
  second, and so on. \<open>nowIso\<close> takes the next reading and hands back the rest.
\<close>

type_synonym clock = "nat \<Rightarrow> string"

definition nowIso :: "clock \<Rightarrow> string \<times> clock" where
  "nowIso now = (now 0, \<lambda>k. now (Suc k))"

text \<open>JavaScript truthiness of a \<^verbatim>\<open>string | null | undefined\<close>: the empty string is falsy.\<close>

fun truthy :: "string option \<Rightarrow> bool" where
  "truthy None = False"
| "truthy (Some s) = (s \<noteq> [])"

section \<open>state.ts\<close>

text \<open>
  \<^verbatim>\<open>initTeamPipelineState(directory, sessionId, options?)\<close>. The constant
  \<^verbatim>\<open>TEAM_PIPELINE_SCHEMA_VERSION\<close> lives in \<^verbatim>\<open>types.ts\<close> and is a parameter here;
  the two optional fields of \<^verbatim>\<open>options\<close> are the option-valued arguments.
\<close>

definition initTeamPipelineState ::
  "clock \<Rightarrow> int \<Rightarrow> string \<Rightarrow> string \<Rightarrow> string option \<Rightarrow> int option \<Rightarrow> TeamPipelineState" where
  "initTeamPipelineState now TEAM_PIPELINE_SCHEMA_VERSION directory sessionId
       opt_project_path opt_max_iterations =
    (let (ts, c1) = nowIso now in
     \<lparr> schema_version = TEAM_PIPELINE_SCHEMA_VERSION,
       mode = ''team'',
       active = True,
       session_id = sessionId,
       project_path = (case opt_project_path of Some p \<Rightarrow> p | None \<Rightarrow> directory),
       phase = team_plan,
       phase_history = [\<lparr> entry_phase = team_plan, entered_at = ts, entry_reason = None \<rparr>],
       iteration = 1,
       max_iterations = (case opt_max_iterations of Some m \<Rightarrow> m | None \<Rightarrow> 25),
       artifacts = \<lparr> plan_path = None, prd_path = None, verify_report_path = None \<rparr>,
       execution = \<lparr> workers_total = 0, workers_active = 0, tasks_total = 0,
                     tasks_completed = 0, tasks_failed = 0 \<rparr>,
       fix_loop = \<lparr> attempt = 0, max_attempts = 3, last_failure_reason = None \<rparr>,
       cancel = \<lparr> requested = False, requested_at = None, preserve_for_resume = False \<rparr>,
       started_at = ts,
       updated_at = ts,
       completed_at = None \<rparr>)"

text \<open>
  \<^verbatim>\<open>markTeamPhase(state, nextPhase, reason?)\<close>, statement by statement. The clock is
  read in the order the statements run: the history entry, \<^verbatim>\<open>completed_at\<close> on a
  terminal target, \<^verbatim>\<open>updated_at\<close>, and in the bound branch \<^verbatim>\<open>completed_at\<close>,
  \<^verbatim>\<open>updated_at\<close> and the entry of the synthesized failure, in the order of the object
  literal. \<^verbatim>\<open>reason ? { reason } : {}\<close> keeps a truthy reason only.
\<close>

definition markTeamPhase ::
  "clock \<Rightarrow> TeamPipelineState \<Rightarrow> TeamPipelinePhase \<Rightarrow> string option \<Rightarrow> TeamTransitionResult" where
  "markTeamPhase now st nextPhase rsn =
    (if phase st = nextPhase \<and> nextPhase \<noteq> team_fix then
       \<lparr> ok = True, state = st, reason = None \<rparr>
     else
       let (t_entry, c1) = nowIso now;
           historyEntry = \<lparr> entry_phase = nextPhase, entered_at = t_entry,
                            entry_reason = (if truthy rsn then rsn else None) \<rparr>;
           u1 = st\<lparr> phase := nextPhase, phase_history := phase_history st @ [historyEntry] \<rparr>;
           (u2, c2) =
             (if nextPhase = complete \<or> nextPhase = failed \<or> nextPhase = cancelled then
                let (t_done, c) = nowIso c1
                in (u1\<lparr> active := False, completed_at := Some t_done \<rparr>, c)
              else (u1, c1));
           u3 = (if nextPhase = team_fix then
                   u2\<lparr> fix_loop := (fix_loop u2)\<lparr> attempt := attempt (fix_loop u2) + 1 \<rparr> \<rparr>
                 else u2);
           (t_upd, c3) = nowIso c2;
           updated = u3\<lparr> updated_at := t_upd \<rparr>
       in
         if attempt (fix_loop updated) > max_attempts (fix_loop updated) then
           let (t_completed, c4) = nowIso c3;
               (t_updated, c5) = nowIso c4;
               (t_failed, c6) = nowIso c5;
               failed_state = updated\<lparr>
                 phase := failed,
                 active := False,
                 completed_at := Some t_completed,
                 updated_at := t_updated,
                 fix_loop := (fix_loop updated)\<lparr>
                   last_failure_reason :=
                     (case last_failure_reason (fix_loop updated) of
                        Some r \<Rightarrow> Some r
                      | None \<Rightarrow> Some ''fix-loop-max-attempts-exceeded'') \<rparr>,
                 phase_history := phase_history updated @
                   [\<lparr> entry_phase = failed, entered_at = t_failed,
                      entry_reason = Some ''fix-loop-max-attempts-exceeded'' \<rparr>] \<rparr>
           in \<lparr> ok = False, state = failed_state,
                reason = Some ''Fix loop exceeded max_attempts'' \<rparr>
         else \<lparr> ok = True, state = updated, reason = None \<rparr>)"

section \<open>transitions.ts\<close>

fun ALLOWED :: "TeamPipelinePhase \<Rightarrow> TeamPipelinePhase list" where
  "ALLOWED team_plan = [team_prd]"
| "ALLOWED team_prd = [team_exec]"
| "ALLOWED team_exec = [team_verify]"
| "ALLOWED team_verify = [team_fix, complete, failed]"
| "ALLOWED team_fix = [team_exec, team_verify, complete, failed]"
| "ALLOWED complete = []"
| "ALLOWED failed = []"
| "ALLOWED cancelled = [team_plan, team_exec]"

definition isAllowedTransition :: "TeamPipelinePhase \<Rightarrow> TeamPipelinePhase \<Rightarrow> bool" where
  "isAllowedTransition from to = (to \<in> set (ALLOWED from))"

text \<open>\<^verbatim>\<open>Boolean(plan_path || prd_path)\<close> is the truthiness of the first truthy operand.\<close>

definition hasRequiredArtifactsForPhase :: "TeamPipelineState \<Rightarrow> TeamPipelinePhase \<Rightarrow> bool" where
  "hasRequiredArtifactsForPhase st next =
    (if next = team_exec then
       truthy (plan_path (artifacts st)) \<or> truthy (prd_path (artifacts st))
     else if next = team_verify then
       tasks_total (execution st) > 0 \<and>
       tasks_completed (execution st) \<ge> tasks_total (execution st)
     else True)"

definition transitionTeamPhase ::
  "clock \<Rightarrow> TeamPipelineState \<Rightarrow> TeamPipelinePhase \<Rightarrow> string option \<Rightarrow> TeamTransitionResult" where
  "transitionTeamPhase now st next rsn =
    (if \<not> isAllowedTransition (phase st) next then
       \<lparr> ok = False, state = st,
         reason = Some (''Illegal transition: '' @ phase_str (phase st) @ '' -> '' @ phase_str next) \<rparr>
     else if phase st = cancelled then
       (if \<not> preserve_for_resume (cancel st) then
          \<lparr> ok = False, state = st,
            reason = Some ''Cannot resume from cancelled: preserve_for_resume is not set'' \<rparr>
        else
          let resumed = st\<lparr> active := True, completed_at := None \<rparr>
          in markTeamPhase now resumed next
               (case rsn of Some r \<Rightarrow> Some r | None \<Rightarrow> Some ''resumed-from-cancelled''))
     else if \<not> hasRequiredArtifactsForPhase st next then
       \<lparr> ok = False, state = st,
         reason = Some (''Guard failed for transition: '' @ phase_str (phase st) @ '' -> '' @ phase_str next) \<rparr>
     else markTeamPhase now st next rsn)"

text \<open>
  \<^verbatim>\<open>requestTeamCancel(state, preserveForResume = true)\<close>: an omitted argument is \<open>None\<close>
  and takes the default. The four clock readings follow the order of the object literal.
\<close>

definition requestTeamCancel ::
  "clock \<Rightarrow> TeamPipelineState \<Rightarrow> bool option \<Rightarrow> TeamPipelineState" where
  "requestTeamCancel now st preserveForResume =
    (let (t_requested, c1) = nowIso now;
         (t_completed, c2) = nowIso c1;
         (t_updated, c3) = nowIso c2;
         (t_entered, c4) = nowIso c3
     in st\<lparr>
          cancel := (cancel st)\<lparr>
            requested := True,
            requested_at := Some t_requested,
            preserve_for_resume := (case preserveForResume of Some b \<Rightarrow> b | None \<Rightarrow> True) \<rparr>,
          phase := cancelled,
          active := False,
          completed_at := Some t_completed,
          updated_at := t_updated,
          phase_history := phase_history st @
            [\<lparr> entry_phase = cancelled, entered_at = t_entered,
               entry_reason = Some ''cancel-requested'' \<rparr>] \<rparr>)"

section \<open>Sequences of calls\<close>

text \<open>
  The driver holds the last state document and stores whatever state a call hands back,
  whether the call succeeded or not. A call of the transition engine or of the
  cancellation path carries the clock readings it sees.
\<close>

datatype engine_call =
  Transition clock TeamPipelinePhase "string option"
| Cancel clock "bool option"

fun engine_step :: "TeamPipelineState \<Rightarrow> engine_call \<Rightarrow> TeamPipelineState" where
  "engine_step st (Transition now next rsn) = state (transitionTeamPhase now st next rsn)"
| "engine_step st (Cancel now preserveForResume) = requestTeamCancel now st preserveForResume"

fun run_engine :: "TeamPipelineState \<Rightarrow> engine_call list \<Rightarrow> TeamPipelineState" where
  "run_engine st [] = st"
| "run_engine st (c # cs) = run_engine (engine_step st c) cs"

text \<open>A privileged caller may also use the phase marker directly.\<close>

datatype pipeline_call =
  Engine engine_call
| Mark clock TeamPipelinePhase "string option"

fun pipeline_step :: "TeamPipelineState \<Rightarrow> pipeline_call \<Rightarrow> TeamPipelineState" where
  "pipeline_step st (Engine c) = engine_step st c"
| "pipeline_step st (Mark now next rsn) = state (markTeamPhase now st next rsn)"

fun run_pipeline :: "TeamPipelineState \<Rightarrow> pipeline_call list \<Rightarrow> TeamPipelineState" where
  "run_pipeline st [] = st"
| "run_pipeline st (c # cs) = run_pipeline (pipeline_step st c) cs"

text \<open>
  The guards read \<open>artifacts\<close> and \<open>execution\<close>, which nothing in \<^verbatim>\<open>state.ts\<close> or
  \<^verbatim>\<open>transitions.ts\<close> ever writes after the initial state: the executor and the verifier
  write them into the document between two calls. Such a write is an event of the run
  and carries the value written, whatever it is.
\<close>

datatype driver_event =
  Call engine_call
| WriteArtifacts TeamArtifacts
| WriteExecution TeamExecution

fun driver_step :: "TeamPipelineState \<Rightarrow> driver_event \<Rightarrow> TeamPipelineState" where
  "driver_step st (Call c) = engine_step st c"
| "driver_step st (WriteArtifacts a) = st\<lparr> artifacts := a \<rparr>"
| "driver_step st (WriteExecution e) = st\<lparr> execution := e \<rparr>"

fun run_driver :: "TeamPipelineState \<Rightarrow> driver_event list \<Rightarrow> TeamPipelineState" where
  "run_driver st [] = st"
| "run_driver st (e # es) = run_driver (driver_step st e) es"

text \<open>The phases on which the marker ends the session.\<close>

definition terminal_phase :: "TeamPipelinePhase \<Rightarrow> bool" where
  "terminal_phase p = (p = complete \<or> p = failed \<or> p = cancelled)"

text \<open>The lifecycle invariant of the state document.\<close>

definition lifecycle_ok :: "TeamPipelineState \<Rightarrow> bool" where
  "lifecycle_ok st =
    ((active st = False) = (phase st \<in> {complete, failed, cancelled}) \<and>
     (completed_at st \<noteq> None) = (active st = False))"

subsection \<open>Concrete inputs\<close>

definition clock0 :: clock where
  "clock0 k = ''2026-01-01T00:00:00.000Z''"

definition st0 :: TeamPipelineState where
  "st0 = initTeamPipelineState clock0 1 ''/repo'' ''session-1'' None None"

text \<open>Three repair attempts used up, as after three entries of \<open>team-fix\<close>.\<close>

definition st_fix3 :: TeamPipelineState where
  "st_fix3 = st0\<lparr> phase := team_fix,
                  fix_loop := \<lparr> attempt = 3, max_attempts = 3, last_failure_reason = None \<rparr> \<rparr>"

text \<open>The retry budget already exceeded, the phase still \<open>team-verify\<close>.\<close>

definition st_over :: TeamPipelineState where
  "st_over = st0\<lparr> phase := team_verify,
                  fix_loop := \<lparr> attempt = 4, max_attempts = 3, last_failure_reason = None \<rparr> \<rparr>"

text \<open>In \<open>team-prd\<close> with a plan path that is the empty string, and with a real one.\<close>

definition st_prd_empty :: TeamPipelineState where
  "st_prd_empty = st0\<lparr> phase := team_prd,
      artifacts := \<lparr> plan_path = Some [], prd_path = None, verify_report_path = None \<rparr> \<rparr>"

definition st_prd_plan :: TeamPipelineState where
  "st_prd_plan = st0\<lparr> phase := team_prd,
      artifacts := \<lparr> plan_path = Some ''plan.md'', prd_path = None, verify_report_path = None \<rparr> \<rparr>"

text \<open>A finished session, and the fresh session cancelled with and without resumption.\<close>

definition st_complete :: TeamPipelineState where
  "st_complete = st0\<lparr> phase := complete, active := False,
      completed_at := Some ''2026-01-02T00:00:00.000Z'' \<rparr>"

definition st_cancelled :: TeamPipelineState where
  "st_cancelled = requestTeamCancel clock0 st0 None"

definition st_cancelled_for_good :: TeamPipelineState where
  "st_cancelled_for_good = requestTeamCancel clock0 st0 (Some False)"

text \<open>In \<open>team-verify\<close> with three repair attempts used up.\<close>

definition st_verify3 :: TeamPipelineState where
  "st_verify3 = st0\<lparr> phase := team_verify,
      fix_loop := \<lparr> attempt = 3, max_attempts = 3, last_failure_reason = None \<rparr> \<rparr>"

text \<open>In \<open>team-exec\<close> with all three tasks completed.\<close>

definition st_exec_done :: TeamPipelineState where
  "st_exec_done = st0\<lparr> phase := team_exec,
      execution := \<lparr> workers_total = 2, workers_active = 0, tasks_total = 3,
                      tasks_completed = 3, tasks_failed = 0 \<rparr> \<rparr>"

text \<open>
  The whole pipeline on a fresh session: the plan is written, the tasks are run, the
  verification passes.
\<close>

definition happy_path :: "driver_event list" where
  "happy_path =
    [Call (Transition clock0 team_prd None),
     WriteArtifacts \<lparr> plan_path = Some ''plan.md'', prd_path = None,
                      verify_report_path = None \<rparr>,
     Call (Transition clock0 team_exec None),
     WriteExecution \<lparr> workers_total = 2, workers_active = 0, tasks_total = 3,
                      tasks_completed = 3, tasks_failed = 0 \<rparr>,
     Call (Transition clock0 team_verify None),
     Call (Transition clock0 complete (Some ''verified''))]"

section \<open>The phase marker\<close>

lemma markTeamPhase_noop:
  "phase st = nextPhase \<Longrightarrow> nextPhase \<noteq> team_fix \<Longrightarrow>
   markTeamPhase now st nextPhase rsn = \<lparr> ok = True, state = st, reason = None \<rparr>"
  by (simp add: markTeamPhase_def)

lemma markTeamPhase_fix_attempt:
  "attempt (fix_loop (state (markTeamPhase now st team_fix rsn))) = attempt (fix_loop st) + 1"
  by (simp add: markTeamPhase_def nowIso_def Let_def)

lemma markTeamPhase_fix_history:
  "phase_history (state (markTeamPhase now st team_fix rsn)) =
     phase_history st @
       \<lparr> entry_phase = team_fix, entered_at = now 0,
         entry_reason = (if truthy rsn then rsn else None) \<rparr> #
       (if attempt (fix_loop st) + 1 > max_attempts (fix_loop st)
        then [\<lparr> entry_phase = failed, entered_at = now 4,
                 entry_reason = Some ''fix-loop-max-attempts-exceeded'' \<rparr>]
        else [])"
  by (simp add: markTeamPhase_def nowIso_def Let_def eval_nat_numeral)

lemma markTeamPhase_fix_within:
  "attempt (fix_loop st) + 1 \<le> max_attempts (fix_loop st) \<Longrightarrow>
   markTeamPhase now st team_fix rsn =
     \<lparr> ok = True,
       state = st\<lparr> phase := team_fix,
                   phase_history := phase_history st @
                     [\<lparr> entry_phase = team_fix, entered_at = now 0,
                        entry_reason = (if truthy rsn then rsn else None) \<rparr>],
                   fix_loop := (fix_loop st)\<lparr> attempt := attempt (fix_loop st) + 1 \<rparr>,
                   updated_at := now 1 \<rparr>,
       reason = None \<rparr>"
  by (simp add: markTeamPhase_def nowIso_def Let_def)

lemma markTeamPhase_bound:
  assumes "\<not> (phase st = nextPhase \<and> nextPhase \<noteq> team_fix)"
    and "attempt (fix_loop st) + (if nextPhase = team_fix then 1 else 0) > max_attempts (fix_loop st)"
  shows "ok (markTeamPhase now st nextPhase rsn) = False"
    and "reason (markTeamPhase now st nextPhase rsn) = Some ''Fix loop exceeded max_attempts''"
    and "phase (state (markTeamPhase now st nextPhase rsn)) = failed"
    and "active (state (markTeamPhase now st nextPhase rsn)) = False"
    and "completed_at (state (markTeamPhase now st nextPhase rsn)) =
           Some (now (if terminal_phase nextPhase then 3 else 2))"
    and "last_failure_reason (fix_loop (state (markTeamPhase now st nextPhase rsn))) =
           (case last_failure_reason (fix_loop st) of Some r \<Rightarrow> Some r
            | None \<Rightarrow> Some ''fix-loop-max-attempts-exceeded'')"
    and "phase_history (state (markTeamPhase now st nextPhase rsn)) =
           phase_history st @
             [\<lparr> entry_phase = nextPhase, entered_at = now 0,
                 entry_reason = (if truthy rsn then rsn else None) \<rparr>,
              \<lparr> entry_phase = failed, entered_at = now (if terminal_phase nextPhase then 5 else 4),
                 entry_reason = Some ''fix-loop-max-attempts-exceeded'' \<rparr>]"
  using assms
  by (auto simp add: markTeamPhase_def nowIso_def Let_def terminal_phase_def eval_nat_numeral
           split: if_splits)

lemma markTeamPhase_accepted_plain:
  assumes "phase st \<noteq> nextPhase" and "nextPhase = team_plan \<or> nextPhase = team_exec"
    and "ok (markTeamPhase now st nextPhase rsn)"
  shows "state (markTeamPhase now st nextPhase rsn) =
           st\<lparr> phase := nextPhase,
               phase_history := phase_history st @
                 [\<lparr> entry_phase = nextPhase, entered_at = now 0,
                    entry_reason = (if truthy rsn then rsn else None) \<rparr>],
               updated_at := now 1 \<rparr>"
proof -
  from assms(2) have nt: "nextPhase \<noteq> team_fix" "nextPhase \<noteq> complete"
    "nextPhase \<noteq> failed" "nextPhase \<noteq> cancelled"
    by auto
  have within: "\<not> attempt (fix_loop st) > max_attempts (fix_loop st)"
  proof
    assume "attempt (fix_loop st) > max_attempts (fix_loop st)"
    then have "ok (markTeamPhase now st nextPhase rsn) = False"
      using assms(1) nt by (simp add: markTeamPhase_def nowIso_def Let_def)
    with assms(3) show False by simp
  qed
  show ?thesis
    using assms(1) nt within by (simp add: markTeamPhase_def nowIso_def Let_def)
qed

text \<open>
  Claim C1. Whenever a call of \<open>markTeamPhase\<close> gets past the no-op test and the mutated
  state has \<open>fix_loop.attempt > fix_loop.max_attempts\<close> (the attempt of the input, plus one
  when the target is \<open>team-fix\<close>), the call returns \<open>ok = False\<close> with the reason
  \<open>Fix loop exceeded max_attempts\<close> and a state with \<open>phase = failed\<close>, \<open>active = False\<close>,
  \<open>completed_at\<close> set, \<open>last_failure_reason\<close> kept when it was set and the default
  otherwise, and the history extended by the entry of the requested phase followed by the
  synthesized \<open>failed\<close> entry. In particular, from a state with \<open>attempt = 0\<close> and
  \<open>max_attempts = 3\<close>, the first three entries of \<open>team-fix\<close> succeed and the fourth is
  turned into the failure, adding two history entries on that call.
\<close>

theorem markTeamPhase_bounded_retry:
  "(\<not> (phase st = nextPhase \<and> nextPhase \<noteq> team_fix) \<and>
    attempt (fix_loop st) + (if nextPhase = team_fix then 1 else 0) > max_attempts (fix_loop st)
    \<longrightarrow>
      ok (markTeamPhase now st nextPhase rsn) = False \<and>
      reason (markTeamPhase now st nextPhase rsn) = Some ''Fix loop exceeded max_attempts'' \<and>
      phase (state (markTeamPhase now st nextPhase rsn)) = failed \<and>
      active (state (markTeamPhase now st nextPhase rsn)) = False \<and>
      completed_at (state (markTeamPhase now st nextPhase rsn)) \<noteq> None \<and>
      last_failure_reason (fix_loop (state (markTeamPhase now st nextPhase rsn))) =
        (case last_failure_reason (fix_loop st) of Some r \<Rightarrow> Some r
         | None \<Rightarrow> Some ''fix-loop-max-attempts-exceeded'') \<and>
      phase_history (state (markTeamPhase now st nextPhase rsn)) =
        phase_history st @
          [\<lparr> entry_phase = nextPhase, entered_at = now 0,
              entry_reason = (if truthy rsn then rsn else None) \<rparr>,
           \<lparr> entry_phase = failed, entered_at = now (if terminal_phase nextPhase then 5 else 4),
              entry_reason = Some ''fix-loop-max-attempts-exceeded'' \<rparr>])
   \<and>
   (attempt (fix_loop s0) = 0 \<and> max_attempts (fix_loop s0) = 3 \<and>
    last_failure_reason (fix_loop s0) = None
    \<longrightarrow>
      (let r1 = markTeamPhase n1 s0 team_fix q1;
           r2 = markTeamPhase n2 (state r1) team_fix q2;
           r3 = markTeamPhase n3 (state r2) team_fix q3;
           r4 = markTeamPhase n4 (state r3) team_fix q4
       in ok r1 \<and> ok r2 \<and> ok r3 \<and> phase (state r3) = team_fix \<and>
          attempt (fix_loop (state r3)) = 3 \<and>
          ok r4 = False \<and> reason r4 = Some ''Fix loop exceeded max_attempts'' \<and>
          phase (state r4) = failed \<and>
          attempt (fix_loop (state r4)) = 4 \<and>
          last_failure_reason (fix_loop (state r4)) = Some ''fix-loop-max-attempts-exceeded'' \<and>
          length (phase_history (state r4)) = length (phase_history (state r3)) + 2))"
proof (intro conjI impI)
  assume h: "\<not> (phase st = nextPhase \<and> nextPhase \<noteq> team_fix) \<and>
    attempt (fix_loop st) + (if nextPhase = team_fix then 1 else 0) > max_attempts (fix_loop st)"
  then have a: "\<not> (phase st = nextPhase \<and> nextPhase \<noteq> team_fix)"
    and b: "attempt (fix_loop st) + (if nextPhase = team_fix then 1 else 0)
              > max_attempts (fix_loop st)"
    by blast+
  note facts = markTeamPhase_bound [OF a b, of now rsn]
  show "ok (markTeamPhase now st nextPhase rsn) = False" by (rule facts(1))
  show "reason (markTeamPhase now st nextPhase rsn) = Some ''Fix loop exceeded max_attempts''"
    by (rule facts(2))
  show "phase (state (markTeamPhase now st nextPhase rsn)) = failed" by (rule facts(3))
  show "active (state (markTeamPhase now st nextPhase rsn)) = False" by (rule facts(4))
  show "completed_at (state (markTeamPhase now st nextPhase rsn)) \<noteq> None"
    by (simp add: facts(5))
  show "last_failure_reason (fix_loop (state (markTeamPhase now st nextPhase rsn))) =
        (case last_failure_reason (fix_loop st) of Some r \<Rightarrow> Some r
         | None \<Rightarrow> Some ''fix-loop-max-attempts-exceeded'')"
    by (rule facts(6))
  show "phase_history (state (markTeamPhase now st nextPhase rsn)) =
        phase_history st @
          [\<lparr> entry_phase = nextPhase, entered_at = now 0,
              entry_reason = (if truthy rsn then rsn else None) \<rparr>,
           \<lparr> entry_phase = failed, entered_at = now (if terminal_phase nextPhase then 5 else 4),
              entry_reason = Some ''fix-loop-max-attempts-exceeded'' \<rparr>]"
    by (rule facts(7))
next
  assume h: "attempt (fix_loop s0) = 0 \<and> max_attempts (fix_loop s0) = 3 \<and>
    last_failure_reason (fix_loop s0) = None"
  define r1 where "r1 = markTeamPhase n1 s0 team_fix q1"
  define r2 where "r2 = markTeamPhase n2 (state r1) team_fix q2"
  define r3 where "r3 = markTeamPhase n3 (state r2) team_fix q3"
  define r4 where "r4 = markTeamPhase n4 (state r3) team_fix q4"
  have e1: "ok r1" "attempt (fix_loop (state r1)) = 1" "max_attempts (fix_loop (state r1)) = 3"
    "last_failure_reason (fix_loop (state r1)) = None"
    using h by (simp_all add: r1_def markTeamPhase_fix_within)
  have e2: "ok r2" "attempt (fix_loop (state r2)) = 2" "max_attempts (fix_loop (state r2)) = 3"
    "last_failure_reason (fix_loop (state r2)) = None"
    using e1 by (simp_all add: r2_def markTeamPhase_fix_within)
  have e3: "ok r3" "attempt (fix_loop (state r3)) = 3" "max_attempts (fix_loop (state r3)) = 3"
    "last_failure_reason (fix_loop (state r3)) = None" "phase (state r3) = team_fix"
    using e2 by (simp_all add: r3_def markTeamPhase_fix_within)
  have a: "\<not> (phase (state r3) = team_fix \<and> team_fix \<noteq> team_fix)" by simp
  have b: "attempt (fix_loop (state r3)) + (if team_fix = team_fix then 1 else 0)
             > max_attempts (fix_loop (state r3))"
    using e3 by simp
  note facts = markTeamPhase_bound [OF a b, of n4 q4, folded r4_def]
  have e4: "ok r4 = False" "reason r4 = Some ''Fix loop exceeded max_attempts''"
    "phase (state r4) = failed"
    "last_failure_reason (fix_loop (state r4)) = Some ''fix-loop-max-attempts-exceeded''"
    "length (phase_history (state r4)) = length (phase_history (state r3)) + 2"
    using facts e3 by simp_all
  have e5: "attempt (fix_loop (state r4)) = 4"
    using markTeamPhase_fix_attempt [of n4 "state r3" q4] e3 by (simp add: r4_def)
  show "let r1 = markTeamPhase n1 s0 team_fix q1;
           r2 = markTeamPhase n2 (state r1) team_fix q2;
           r3 = markTeamPhase n3 (state r2) team_fix q3;
           r4 = markTeamPhase n4 (state r3) team_fix q4
       in ok r1 \<and> ok r2 \<and> ok r3 \<and> phase (state r3) = team_fix \<and>
          attempt (fix_loop (state r3)) = 3 \<and>
          ok r4 = False \<and> reason r4 = Some ''Fix loop exceeded max_attempts'' \<and>
          phase (state r4) = failed \<and>
          attempt (fix_loop (state r4)) = 4 \<and>
          last_failure_reason (fix_loop (state r4)) = Some ''fix-loop-max-attempts-exceeded'' \<and>
          length (phase_history (state r4)) = length (phase_history (state r3)) + 2"
    unfolding Let_def r1_def [symmetric] r2_def [symmetric] r3_def [symmetric] r4_def [symmetric]
    using e1 e2 e3 e4 e5 by simp
qed

theorem markTeamPhase_bounded_retry_witness:
  "(\<not> (phase st_fix3 = team_fix \<and> team_fix \<noteq> team_fix) \<and>
    attempt (fix_loop st_fix3) + 1 > max_attempts (fix_loop st_fix3)) \<and>
   ok (markTeamPhase clock0 st_fix3 team_fix None) = False \<and>
   reason (markTeamPhase clock0 st_fix3 team_fix None) = Some ''Fix loop exceeded max_attempts'' \<and>
   phase (state (markTeamPhase clock0 st_fix3 team_fix None)) = failed \<and>
   active (state (markTeamPhase clock0 st_fix3 team_fix None)) = False \<and>
   last_failure_reason (fix_loop (state (markTeamPhase clock0 st_fix3 team_fix None))) =
     Some ''fix-loop-max-attempts-exceeded'' \<and>
   map entry_phase (phase_history (state (markTeamPhase clock0 st_fix3 team_fix None))) =
     [team_plan, team_fix, failed] \<and>
   (attempt (fix_loop st0) = 0 \<and> max_attempts (fix_loop st0) = 3 \<and>
    last_failure_reason (fix_loop st0) = None) \<and>
   (let r1 = markTeamPhase clock0 st0 team_fix None;
        r2 = markTeamPhase clock0 (state r1) team_fix None;
        r3 = markTeamPhase clock0 (state r2) team_fix None;
        r4 = markTeamPhase clock0 (state r3) team_fix None
    in ok r3 \<and> ok r4 = False \<and> phase (state r4) = failed \<and>
       length (phase_history (state r4)) = length (phase_history (state r3)) + 2)"
proof -
  have h1: "\<not> (phase st_fix3 = team_fix \<and> team_fix \<noteq> team_fix) \<and>
    attempt (fix_loop st_fix3) + (if team_fix = team_fix then 1 else 0)
      > max_attempts (fix_loop st_fix3)"
    by (simp add: st_fix3_def)
  have h2: "attempt (fix_loop st0) = 0 \<and> max_attempts (fix_loop st0) = 3 \<and>
    last_failure_reason (fix_loop st0) = None"
    by (simp add: st0_def initTeamPipelineState_def nowIso_def)
  have h3: "last_failure_reason (fix_loop st_fix3) = None"
    "map entry_phase (phase_history st_fix3) = [team_plan]"
    by (simp_all add: st_fix3_def st0_def initTeamPipelineState_def nowIso_def)
  show ?thesis
    using markTeamPhase_bounded_retry [where st = st_fix3 and nextPhase = team_fix
        and now = clock0 and rsn = None and ?s0.0 = st0
        and ?n1.0 = clock0 and ?n2.0 = clock0 and ?n3.0 = clock0 and ?n4.0 = clock0
        and ?q1.0 = None and ?q2.0 = None and ?q3.0 = None and ?q4.0 = None] h1 h2 h3
    by (simp add: Let_def)
qed

text \<open>
  Claim C8. \<open>markTeamPhase\<close> on the phase the state is already in, other than
  \<open>team-fix\<close>, returns \<open>ok = True\<close> and the very state it was given: no history entry, no
  new timestamp. A request for \<open>team-fix\<close> is never that no-op, from \<open>team-fix\<close> itself as
  from any other phase: the returned state has \<open>fix_loop.attempt\<close> one higher and the
  history extended by the \<open>team-fix\<close> entry (followed by the \<open>failed\<close> entry when the
  bound is passed).
\<close>

theorem markTeamPhase_idempotent_except_fix:
  "(phase st = nextPhase \<and> nextPhase \<noteq> team_fix \<longrightarrow>
      markTeamPhase now st nextPhase rsn = \<lparr> ok = True, state = st, reason = None \<rparr>) \<and>
   markTeamPhase now' st' team_fix rsn' \<noteq> \<lparr> ok = True, state = st', reason = None \<rparr> \<and>
   attempt (fix_loop (state (markTeamPhase now' st' team_fix rsn'))) =
     attempt (fix_loop st') + 1 \<and>
   phase_history (state (markTeamPhase now' st' team_fix rsn')) =
     phase_history st' @
       \<lparr> entry_phase = team_fix, entered_at = now' 0,
         entry_reason = (if truthy rsn' then rsn' else None) \<rparr> #
       (if attempt (fix_loop st') + 1 > max_attempts (fix_loop st')
        then [\<lparr> entry_phase = failed, entered_at = now' 4,
                 entry_reason = Some ''fix-loop-max-attempts-exceeded'' \<rparr>]
        else [])"
proof (intro conjI impI)
  assume "phase st = nextPhase \<and> nextPhase \<noteq> team_fix"
  then show "markTeamPhase now st nextPhase rsn = \<lparr> ok = True, state = st, reason = None \<rparr>"
    by (simp add: markTeamPhase_noop)
next
  show "markTeamPhase now' st' team_fix rsn' \<noteq> \<lparr> ok = True, state = st', reason = None \<rparr>"
  proof
    assume "markTeamPhase now' st' team_fix rsn' = \<lparr> ok = True, state = st', reason = None \<rparr>"
    then have "attempt (fix_loop (state (markTeamPhase now' st' team_fix rsn'))) =
                 attempt (fix_loop st')"
      by simp
    then show False by (simp add: markTeamPhase_fix_attempt)
  qed
next
  show "attempt (fix_loop (state (markTeamPhase now' st' team_fix rsn'))) =
          attempt (fix_loop st') + 1"
    by (rule markTeamPhase_fix_attempt)
next
  show "phase_history (state (markTeamPhase now' st' team_fix rsn')) =
     phase_history st' @
       \<lparr> entry_phase = team_fix, entered_at = now' 0,
         entry_reason = (if truthy rsn' then rsn' else None) \<rparr> #
       (if attempt (fix_loop st') + 1 > max_attempts (fix_loop st')
        then [\<lparr> entry_phase = failed, entered_at = now' 4,
                 entry_reason = Some ''fix-loop-max-attempts-exceeded'' \<rparr>]
        else [])"
    by (rule markTeamPhase_fix_history)
qed

theorem markTeamPhase_idempotent_except_fix_witness:
  "(phase st0 = team_plan \<and> team_plan \<noteq> team_fix) \<and>
   markTeamPhase clock0 st0 team_plan (Some ''again'') =
     \<lparr> ok = True, state = st0, reason = None \<rparr> \<and>
   phase st_fix3 = team_fix \<and>
   attempt (fix_loop (state (markTeamPhase clock0 st_fix3 team_fix None))) = 4 \<and>
   length (phase_history (state (markTeamPhase clock0 st_fix3 team_fix None))) =
     length (phase_history st_fix3) + 2"
proof -
  have h: "phase st0 = team_plan \<and> team_plan \<noteq> team_fix"
    by (simp add: st0_def initTeamPipelineState_def nowIso_def)
  have g: "phase st_fix3 = team_fix" "attempt (fix_loop st_fix3) = 3"
    "max_attempts (fix_loop st_fix3) = 3"
    by (simp_all add: st_fix3_def)
  show ?thesis
    using markTeamPhase_idempotent_except_fix [where st = st0 and nextPhase = team_plan
        and now = clock0 and rsn = "Some ''again''" and st' = st_fix3 and now' = clock0
        and rsn' = None] h g
    by simp
qed

text \<open>
  Claim C10. The bound is tested after every mutating call of \<open>markTeamPhase\<close>, whatever
  the target: from a state whose \<open>fix_loop.attempt\<close> already exceeds
  \<open>fix_loop.max_attempts\<close>, every call that is not the no-op returns \<open>ok = False\<close> and the
  synthesized failed state, also when the target is not \<open>team-fix\<close> (\<open>complete\<close>, say).
\<close>

theorem markTeamPhase_bound_on_every_target:
  assumes "attempt (fix_loop st) > max_attempts (fix_loop st)"
    and "\<not> (phase st = nextPhase \<and> nextPhase \<noteq> team_fix)"
  shows "ok (markTeamPhase now st nextPhase rsn) = False \<and>
         reason (markTeamPhase now st nextPhase rsn) = Some ''Fix loop exceeded max_attempts'' \<and>
         phase (state (markTeamPhase now st nextPhase rsn)) = failed \<and>
         active (state (markTeamPhase now st nextPhase rsn)) = False \<and>
         completed_at (state (markTeamPhase now st nextPhase rsn)) \<noteq> None \<and>
         last_failure_reason (fix_loop (state (markTeamPhase now st nextPhase rsn))) =
           (case last_failure_reason (fix_loop st) of Some r \<Rightarrow> Some r
            | None \<Rightarrow> Some ''fix-loop-max-attempts-exceeded'') \<and>
         map entry_phase (phase_history (state (markTeamPhase now st nextPhase rsn))) =
           map entry_phase (phase_history st) @ [nextPhase, failed]"
proof -
  have b: "attempt (fix_loop st) + (if nextPhase = team_fix then 1 else 0)
             > max_attempts (fix_loop st)"
    using assms(1) by simp
  note facts = markTeamPhase_bound [OF assms(2) b, of now rsn]
  show ?thesis
    by (simp add: facts)
qed

theorem markTeamPhase_bound_on_every_target_witness:
  "attempt (fix_loop st_over) > max_attempts (fix_loop st_over) \<and>
   \<not> (phase st_over = complete \<and> complete \<noteq> team_fix) \<and>
   ok (markTeamPhase clock0 st_over complete None) = False \<and>
   reason (markTeamPhase clock0 st_over complete None) = Some ''Fix loop exceeded max_attempts'' \<and>
   phase (state (markTeamPhase clock0 st_over complete None)) = failed \<and>
   map entry_phase (phase_history (state (markTeamPhase clock0 st_over complete None))) =
     [team_plan, complete, failed]"
proof -
  have h1: "attempt (fix_loop st_over) > max_attempts (fix_loop st_over)"
    by (simp add: st_over_def)
  have h2: "\<not> (phase st_over = complete \<and> complete \<noteq> team_fix)"
    by (simp add: st_over_def)
  have h3: "map entry_phase (phase_history st_over) = [team_plan]"
    by (simp add: st_over_def st0_def initTeamPipelineState_def nowIso_def)
  show ?thesis
    using markTeamPhase_bound_on_every_target [OF h1 h2, of clock0 None] h1 h2 h3
    by simp
qed

section \<open>The transition engine\<close>

lemma isAllowedTransition_set: "isAllowedTransition a b = (b \<in> set (ALLOWED a))"
  by (simp add: isAllowedTransition_def)

lemma ALLOWED_irrefl: "p \<notin> set (ALLOWED p)"
  by (cases p) simp_all

lemma transitionTeamPhase_illegal:
  "next \<notin> set (ALLOWED (phase st)) \<Longrightarrow>
   transitionTeamPhase now st next rsn =
     \<lparr> ok = False, state = st,
       reason = Some (''Illegal transition: '' @ phase_str (phase st) @ '' -> '' @ phase_str next) \<rparr>"
  by (simp add: transitionTeamPhase_def isAllowedTransition_set)

lemma transitionTeamPhase_cancelled:
  "phase st = cancelled \<Longrightarrow> next \<in> set (ALLOWED cancelled) \<Longrightarrow>
   transitionTeamPhase now st next rsn =
     (if \<not> preserve_for_resume (cancel st) then
        \<lparr> ok = False, state = st,
          reason = Some ''Cannot resume from cancelled: preserve_for_resume is not set'' \<rparr>
      else markTeamPhase now (st\<lparr> active := True, completed_at := None \<rparr>) next
             (case rsn of Some r \<Rightarrow> Some r | None \<Rightarrow> Some ''resumed-from-cancelled''))"
  by (simp add: transitionTeamPhase_def isAllowedTransition_set)

lemma transitionTeamPhase_guarded:
  "phase st \<noteq> cancelled \<Longrightarrow> next \<in> set (ALLOWED (phase st)) \<Longrightarrow>
   transitionTeamPhase now st next rsn =
     (if \<not> hasRequiredArtifactsForPhase st next then
        \<lparr> ok = False, state = st,
          reason = Some (''Guard failed for transition: '' @ phase_str (phase st) @ '' -> ''
                          @ phase_str next) \<rparr>
      else markTeamPhase now st next rsn)"
  by (simp add: transitionTeamPhase_def isAllowedTransition_set)

lemma truthy_iff: "truthy p = (p \<noteq> None \<and> p \<noteq> Some [])"
  by (cases p) simp_all

text \<open>
  Claim C2. \<open>transitionTeamPhase\<close> accepts a request only when the target is in the row of
  the adjacency table for the current phase; the rows are the eight listed. A target
  outside the row gives \<open>ok = False\<close>, the input state, and the reason
  \<open>Illegal transition: <from> -> <to>\<close>. From \<open>complete\<close> and from \<open>failed\<close> every
  request fails this way.
\<close>

theorem transitionTeamPhase_legality:
  "(ok (transitionTeamPhase now st next rsn) \<longrightarrow> next \<in> set (ALLOWED (phase st))) \<and>
   (next \<notin> set (ALLOWED (phase st)) \<longrightarrow>
      transitionTeamPhase now st next rsn =
        \<lparr> ok = False, state = st,
          reason = Some (''Illegal transition: '' @ phase_str (phase st) @ '' -> ''
                          @ phase_str next) \<rparr>) \<and>
   (phase st = complete \<or> phase st = failed \<longrightarrow>
      transitionTeamPhase now st next rsn =
        \<lparr> ok = False, state = st,
          reason = Some (''Illegal transition: '' @ phase_str (phase st) @ '' -> ''
                          @ phase_str next) \<rparr>) \<and>
   ALLOWED team_plan = [team_prd] \<and>
   ALLOWED team_prd = [team_exec] \<and>
   ALLOWED team_exec = [team_verify] \<and>
   ALLOWED team_verify = [team_fix, complete, failed] \<and>
   ALLOWED team_fix = [team_exec, team_verify, complete, failed] \<and>
   ALLOWED complete = [] \<and>
   ALLOWED failed = [] \<and>
   ALLOWED cancelled = [team_plan, team_exec]"
proof -
  have a: "ok (transitionTeamPhase now st next rsn) \<longrightarrow> next \<in> set (ALLOWED (phase st))"
  proof
    assume okr: "ok (transitionTeamPhase now st next rsn)"
    show "next \<in> set (ALLOWED (phase st))"
    proof (rule ccontr)
      assume "next \<notin> set (ALLOWED (phase st))"
      then have "ok (transitionTeamPhase now st next rsn) = False"
        by (simp add: transitionTeamPhase_illegal)
      with okr show False by simp
    qed
  qed
  have b: "next \<notin> set (ALLOWED (phase st)) \<longrightarrow>
      transitionTeamPhase now st next rsn =
        \<lparr> ok = False, state = st,
          reason = Some (''Illegal transition: '' @ phase_str (phase st) @ '' -> ''
                          @ phase_str next) \<rparr>"
    by (simp add: transitionTeamPhase_illegal)
  have c: "phase st = complete \<or> phase st = failed \<longrightarrow>
      transitionTeamPhase now st next rsn =
        \<lparr> ok = False, state = st,
          reason = Some (''Illegal transition: '' @ phase_str (phase st) @ '' -> ''
                          @ phase_str next) \<rparr>"
  proof
    assume "phase st = complete \<or> phase st = failed"
    then have "next \<notin> set (ALLOWED (phase st))" by auto
    then show "transitionTeamPhase now st next rsn =
        \<lparr> ok = False, state = st,
          reason = Some (''Illegal transition: '' @ phase_str (phase st) @ '' -> ''
                          @ phase_str next) \<rparr>"
      by (rule transitionTeamPhase_illegal)
  qed
  from a b c show ?thesis by simp
qed

theorem transitionTeamPhase_legality_witness:
  "ok (transitionTeamPhase clock0 st0 team_prd None) \<and> team_prd \<in> set (ALLOWED (phase st0)) \<and>
   team_exec \<notin> set (ALLOWED (phase st0)) \<and>
   transitionTeamPhase clock0 st0 team_exec None =
     \<lparr> ok = False, state = st0, reason = Some ''Illegal transition: team-plan -> team-exec'' \<rparr> \<and>
   phase st_complete = complete \<and>
   transitionTeamPhase clock0 st_complete team_plan None =
     \<lparr> ok = False, state = st_complete,
       reason = Some ''Illegal transition: complete -> team-plan'' \<rparr>"
proof -
  have p0: "phase st0 = team_plan"
    by (simp add: st0_def initTeamPipelineState_def nowIso_def)
  have h1: "ok (transitionTeamPhase clock0 st0 team_prd None)"
    by (simp add: transitionTeamPhase_def isAllowedTransition_set p0
          hasRequiredArtifactsForPhase_def markTeamPhase_def nowIso_def Let_def)
       (simp add: st0_def initTeamPipelineState_def nowIso_def)
  have h2: "team_exec \<notin> set (ALLOWED (phase st0))"
    by (simp add: p0)
  have h3: "phase st_complete = complete"
    by (simp add: st_complete_def)
  show ?thesis
    using transitionTeamPhase_legality [of clock0 st0 team_prd None]
          transitionTeamPhase_legality [of clock0 st0 team_exec None]
          transitionTeamPhase_legality [of clock0 st_complete team_plan None]
          h1 h2 h3 p0
    by simp
qed

lemma markTeamPhase_reason:
  "reason (markTeamPhase now st nextPhase rsn) = None \<or>
   reason (markTeamPhase now st nextPhase rsn) = Some ''Fix loop exceeded max_attempts''"
  by (simp add: markTeamPhase_def nowIso_def Let_def)

lemma markTeamPhase_reason_not_guard:
  "reason (markTeamPhase now st nextPhase rsn) \<noteq> Some (''Guard failed for transition: '' @ m)"
  using markTeamPhase_reason [of now st nextPhase rsn] by auto

lemma guard_exec_nonnull:
  "hasRequiredArtifactsForPhase st team_exec \<Longrightarrow>
   plan_path (artifacts st) \<noteq> None \<or> prd_path (artifacts st) \<noteq> None"
  by (auto simp add: hasRequiredArtifactsForPhase_def)

lemma transitionTeamPhase_ok_guard:
  assumes "phase st \<noteq> cancelled" and "ok (transitionTeamPhase now st next rsn)"
  shows "hasRequiredArtifactsForPhase st next"
proof (rule ccontr)
  assume ng: "\<not> hasRequiredArtifactsForPhase st next"
  have "ok (transitionTeamPhase now st next rsn) = False"
  proof (cases "next \<in> set (ALLOWED (phase st))")
    case True
    then show ?thesis
      using assms(1) ng by (simp add: transitionTeamPhase_guarded)
  next
    case False
    then show ?thesis
      by (simp add: transitionTeamPhase_illegal)
  qed
  with assms(2) show False by simp
qed

lemma transitionTeamPhase_guard_reason:
  "(reason (transitionTeamPhase now st next rsn) =
      Some (''Guard failed for transition: '' @ phase_str (phase st) @ '' -> '' @ phase_str next))
   = (phase st \<noteq> cancelled \<and> next \<in> set (ALLOWED (phase st)) \<and>
      \<not> hasRequiredArtifactsForPhase st next)"
proof (cases "next \<in> set (ALLOWED (phase st))")
  case False
  then show ?thesis
    by (simp add: transitionTeamPhase_illegal)
next
  case allowed: True
  show ?thesis
  proof (cases "phase st = cancelled")
    case True
    with allowed have al: "next \<in> set (ALLOWED cancelled)" by simp
    show ?thesis
      using True markTeamPhase_reason_not_guard
      by (simp add: transitionTeamPhase_cancelled [OF True al])
  next
    case False
    show ?thesis
      using False allowed markTeamPhase_reason_not_guard
      by (simp add: transitionTeamPhase_guarded [OF False allowed])
  qed
qed

text \<open>
  Claim C3. For a source phase other than \<open>cancelled\<close>, a request that
  \<open>transitionTeamPhase\<close> accepts into \<open>team-exec\<close> has at least one of
  \<open>artifacts.plan_path\<close> and \<open>artifacts.prd_path\<close> non-null, and one that it accepts into
  \<open>team-verify\<close> has \<open>tasks_total > 0\<close> and \<open>tasks_completed \<ge> tasks_total\<close>; every other
  target has no guard. (The test on the paths is their truthiness, so the path that
  passes is also not the empty string.) A guard failure returns \<open>ok = False\<close>, the input
  state and the reason \<open>Guard failed for transition: <from> -> <to>\<close>, and a guard that
  holds hands the request to the phase marker; that reason is returned exactly when the
  source is not \<open>cancelled\<close>, the target is in the table and the guard is false. From
  \<open>cancelled\<close> the guard is not consulted: the result is decided by
  \<open>preserve_for_resume\<close> alone.
\<close>

theorem transitionTeamPhase_guards:
  "(phase st \<noteq> cancelled \<and> ok (transitionTeamPhase now st team_exec rsn) \<longrightarrow>
      plan_path (artifacts st) \<noteq> None \<or> prd_path (artifacts st) \<noteq> None) \<and>
   (phase st \<noteq> cancelled \<and> ok (transitionTeamPhase now st team_verify rsn) \<longrightarrow>
      0 < tasks_total (execution st) \<and>
      tasks_total (execution st) \<le> tasks_completed (execution st)) \<and>
   (hasRequiredArtifactsForPhase st team_exec \<longrightarrow>
      plan_path (artifacts st) \<noteq> None \<or> prd_path (artifacts st) \<noteq> None) \<and>
   hasRequiredArtifactsForPhase st team_exec =
     ((plan_path (artifacts st) \<noteq> None \<and> plan_path (artifacts st) \<noteq> Some []) \<or>
      (prd_path (artifacts st) \<noteq> None \<and> prd_path (artifacts st) \<noteq> Some [])) \<and>
   hasRequiredArtifactsForPhase st team_verify =
     (0 < tasks_total (execution st) \<and>
      tasks_total (execution st) \<le> tasks_completed (execution st)) \<and>
   (next \<noteq> team_exec \<and> next \<noteq> team_verify \<longrightarrow> hasRequiredArtifactsForPhase st next) \<and>
   (phase st \<noteq> cancelled \<and> next \<in> set (ALLOWED (phase st)) \<and>
    \<not> hasRequiredArtifactsForPhase st next \<longrightarrow>
      transitionTeamPhase now st next rsn =
        \<lparr> ok = False, state = st,
          reason = Some (''Guard failed for transition: '' @ phase_str (phase st) @ '' -> ''
                          @ phase_str next) \<rparr>) \<and>
   (phase st \<noteq> cancelled \<and> next \<in> set (ALLOWED (phase st)) \<and>
    hasRequiredArtifactsForPhase st next \<longrightarrow>
      transitionTeamPhase now st next rsn = markTeamPhase now st next rsn) \<and>
   (reason (transitionTeamPhase now st next rsn) =
      Some (''Guard failed for transition: '' @ phase_str (phase st) @ '' -> '' @ phase_str next))
     = (phase st \<noteq> cancelled \<and> next \<in> set (ALLOWED (phase st)) \<and>
        \<not> hasRequiredArtifactsForPhase st next) \<and>
   (phase st = cancelled \<and> next \<in> set (ALLOWED cancelled) \<longrightarrow>
      transitionTeamPhase now st next rsn =
        (if \<not> preserve_for_resume (cancel st) then
           \<lparr> ok = False, state = st,
             reason = Some ''Cannot resume from cancelled: preserve_for_resume is not set'' \<rparr>
         else markTeamPhase now (st\<lparr> active := True, completed_at := None \<rparr>) next
                (case rsn of Some r \<Rightarrow> Some r | None \<Rightarrow> Some ''resumed-from-cancelled'')))"
proof -
  have a: "phase st \<noteq> cancelled \<and> ok (transitionTeamPhase now st team_exec rsn) \<longrightarrow>
      plan_path (artifacts st) \<noteq> None \<or> prd_path (artifacts st) \<noteq> None"
  proof
    assume h: "phase st \<noteq> cancelled \<and> ok (transitionTeamPhase now st team_exec rsn)"
    then have "hasRequiredArtifactsForPhase st team_exec"
      using transitionTeamPhase_ok_guard [of st now team_exec rsn] by simp
    then show "plan_path (artifacts st) \<noteq> None \<or> prd_path (artifacts st) \<noteq> None"
      by (rule guard_exec_nonnull)
  qed
  have b: "phase st \<noteq> cancelled \<and> ok (transitionTeamPhase now st team_verify rsn) \<longrightarrow>
      0 < tasks_total (execution st) \<and>
      tasks_total (execution st) \<le> tasks_completed (execution st)"
  proof
    assume h: "phase st \<noteq> cancelled \<and> ok (transitionTeamPhase now st team_verify rsn)"
    then have "hasRequiredArtifactsForPhase st team_verify"
      using transitionTeamPhase_ok_guard [of st now team_verify rsn] by simp
    then show "0 < tasks_total (execution st) \<and>
      tasks_total (execution st) \<le> tasks_completed (execution st)"
      by (simp add: hasRequiredArtifactsForPhase_def)
  qed
  have c: "hasRequiredArtifactsForPhase st team_exec \<longrightarrow>
      plan_path (artifacts st) \<noteq> None \<or> prd_path (artifacts st) \<noteq> None"
    using guard_exec_nonnull [of st] by simp
  have d: "hasRequiredArtifactsForPhase st team_exec =
     ((plan_path (artifacts st) \<noteq> None \<and> plan_path (artifacts st) \<noteq> Some []) \<or>
      (prd_path (artifacts st) \<noteq> None \<and> prd_path (artifacts st) \<noteq> Some []))"
    by (simp add: hasRequiredArtifactsForPhase_def truthy_iff)
  have e: "hasRequiredArtifactsForPhase st team_verify =
     (0 < tasks_total (execution st) \<and>
      tasks_total (execution st) \<le> tasks_completed (execution st))"
    by (simp add: hasRequiredArtifactsForPhase_def)
  have f: "next \<noteq> team_exec \<and> next \<noteq> team_verify \<longrightarrow> hasRequiredArtifactsForPhase st next"
    by (simp add: hasRequiredArtifactsForPhase_def)
  have g: "phase st \<noteq> cancelled \<and> next \<in> set (ALLOWED (phase st)) \<and>
    \<not> hasRequiredArtifactsForPhase st next \<longrightarrow>
      transitionTeamPhase now st next rsn =
        \<lparr> ok = False, state = st,
          reason = Some (''Guard failed for transition: '' @ phase_str (phase st) @ '' -> ''
                          @ phase_str next) \<rparr>"
    by (simp add: transitionTeamPhase_guarded)
  have h: "phase st \<noteq> cancelled \<and> next \<in> set (ALLOWED (phase st)) \<and>
    hasRequiredArtifactsForPhase st next \<longrightarrow>
      transitionTeamPhase now st next rsn = markTeamPhase now st next rsn"
    by (simp add: transitionTeamPhase_guarded)
  note i = transitionTeamPhase_guard_reason [of now st "next" rsn]
  have j: "phase st = cancelled \<and> next \<in> set (ALLOWED cancelled) \<longrightarrow>
      transitionTeamPhase now st next rsn =
        (if \<not> preserve_for_resume (cancel st) then
           \<lparr> ok = False, state = st,
             reason = Some ''Cannot resume from cancelled: preserve_for_resume is not set'' \<rparr>
         else markTeamPhase now (st\<lparr> active := True, completed_at := None \<rparr>) next
                (case rsn of Some r \<Rightarrow> Some r | None \<Rightarrow> Some ''resumed-from-cancelled''))"
    by (simp add: transitionTeamPhase_cancelled)
  show ?thesis
    by (rule conjI [OF a conjI [OF b conjI [OF c conjI [OF d conjI [OF e conjI [OF f
          conjI [OF g conjI [OF h conjI [OF i j]]]]]]]]])
qed

lemma st0_fields:
  "phase st0 = team_plan" "active st0" "completed_at st0 = None"
  "artifacts st0 = \<lparr> plan_path = None, prd_path = None, verify_report_path = None \<rparr>"
  "fix_loop st0 = \<lparr> attempt = 0, max_attempts = 3, last_failure_reason = None \<rparr>"
  "map entry_phase (phase_history st0) = [team_plan]"
  by (simp_all add: st0_def initTeamPipelineState_def nowIso_def)

lemma st_cancelled_fields:
  "phase st_cancelled = cancelled" "preserve_for_resume (cancel st_cancelled)"
  "active st_cancelled = False" "completed_at st_cancelled \<noteq> None"
  "artifacts st_cancelled = artifacts st0" "fix_loop st_cancelled = fix_loop st0"
  "map entry_phase (phase_history st_cancelled) = [team_plan, cancelled]"
  "phase st_cancelled_for_good = cancelled"
  "preserve_for_resume (cancel st_cancelled_for_good) = False"
  by (simp_all add: st_cancelled_def st_cancelled_for_good_def requestTeamCancel_def
        nowIso_def st0_fields)

theorem transitionTeamPhase_guards_witness:
  "(phase st_prd_plan \<noteq> cancelled \<and> ok (transitionTeamPhase clock0 st_prd_plan team_exec None)) \<and>
   plan_path (artifacts st_prd_plan) = Some ''plan.md'' \<and>
   (phase st_exec_done \<noteq> cancelled \<and>
    ok (transitionTeamPhase clock0 st_exec_done team_verify None)) \<and>
   tasks_total (execution st_exec_done) = 3 \<and> tasks_completed (execution st_exec_done) = 3 \<and>
   (team_prd \<noteq> team_exec \<and> team_prd \<noteq> team_verify) \<and>
   hasRequiredArtifactsForPhase st0 team_prd \<and>
   (phase st_prd_empty \<noteq> cancelled \<and> team_exec \<in> set (ALLOWED (phase st_prd_empty)) \<and>
    \<not> hasRequiredArtifactsForPhase st_prd_empty team_exec) \<and>
   transitionTeamPhase clock0 st_prd_empty team_exec None =
     \<lparr> ok = False, state = st_prd_empty,
       reason = Some ''Guard failed for transition: team-prd -> team-exec'' \<rparr> \<and>
   (phase st_prd_plan \<noteq> cancelled \<and> team_exec \<in> set (ALLOWED (phase st_prd_plan)) \<and>
    hasRequiredArtifactsForPhase st_prd_plan team_exec) \<and>
   transitionTeamPhase clock0 st_prd_plan team_exec None =
     markTeamPhase clock0 st_prd_plan team_exec None \<and>
   (phase st_cancelled = cancelled \<and> team_exec \<in> set (ALLOWED cancelled)) \<and>
   \<not> hasRequiredArtifactsForPhase st_cancelled team_exec \<and>
   ok (transitionTeamPhase clock0 st_cancelled team_exec None)"
proof -
  have e: "phase st_prd_empty = team_prd" "plan_path (artifacts st_prd_empty) = Some []"
    "prd_path (artifacts st_prd_empty) = None"
    by (simp_all add: st_prd_empty_def)
  have p: "phase st_prd_plan = team_prd" "plan_path (artifacts st_prd_plan) = Some ''plan.md''"
    "fix_loop st_prd_plan = fix_loop st0"
    by (simp_all add: st_prd_plan_def)
  have x: "phase st_exec_done = team_exec" "tasks_total (execution st_exec_done) = 3"
    "tasks_completed (execution st_exec_done) = 3" "fix_loop st_exec_done = fix_loop st0"
    by (simp_all add: st_exec_done_def)
  have h1: "phase st_prd_empty \<noteq> cancelled \<and> team_exec \<in> set (ALLOWED (phase st_prd_empty)) \<and>
    \<not> hasRequiredArtifactsForPhase st_prd_empty team_exec"
    by (simp add: e hasRequiredArtifactsForPhase_def)
  have h2: "phase st_prd_plan \<noteq> cancelled \<and> team_exec \<in> set (ALLOWED (phase st_prd_plan)) \<and>
    hasRequiredArtifactsForPhase st_prd_plan team_exec"
    by (simp add: p hasRequiredArtifactsForPhase_def)
  have h3: "ok (markTeamPhase clock0 st_prd_plan team_exec None)"
    by (simp add: markTeamPhase_def nowIso_def Let_def p st0_fields)
  have h4: "phase st_cancelled = cancelled \<and> team_exec \<in> set (ALLOWED cancelled)"
    by (simp add: st_cancelled_fields)
  have h5: "\<not> hasRequiredArtifactsForPhase st_cancelled team_exec"
    by (simp add: hasRequiredArtifactsForPhase_def st_cancelled_fields st0_fields)
  have h6: "ok (markTeamPhase clock0 (st_cancelled\<lparr> active := True, completed_at := None \<rparr>)
              team_exec (Some ''resumed-from-cancelled''))"
    by (simp add: markTeamPhase_def nowIso_def Let_def st_cancelled_fields st0_fields)
  have h7: "ok (transitionTeamPhase clock0 st_exec_done team_verify None)"
    by (simp add: transitionTeamPhase_guarded x hasRequiredArtifactsForPhase_def
          markTeamPhase_def nowIso_def Let_def st0_fields)
  have h8: "ok (transitionTeamPhase clock0 st_prd_plan team_exec None)"
    using h2 h3 by (simp add: transitionTeamPhase_guarded p)
  note w1 = transitionTeamPhase_guards [of st_prd_plan clock0 None team_exec]
  note w2 = transitionTeamPhase_guards [of st_exec_done clock0 None team_verify]
  note w3 = transitionTeamPhase_guards [of st0 clock0 None team_prd]
  note w4 = transitionTeamPhase_guards [of st_prd_empty clock0 None team_exec]
  note w5 = transitionTeamPhase_guards [of st_cancelled clock0 None team_exec]
  have c1: "hasRequiredArtifactsForPhase st0 team_prd"
    using w3 by simp
  have c2: "transitionTeamPhase clock0 st_prd_empty team_exec None =
     \<lparr> ok = False, state = st_prd_empty,
       reason = Some ''Guard failed for transition: team-prd -> team-exec'' \<rparr>"
    using w4 h1 by (simp add: e)
  have c3: "transitionTeamPhase clock0 st_prd_plan team_exec None =
     markTeamPhase clock0 st_prd_plan team_exec None"
    using w1 h2 by simp
  have c4: "ok (transitionTeamPhase clock0 st_cancelled team_exec None)"
    using w5 h4 h6 by (simp add: st_cancelled_fields)
  have c5: "plan_path (artifacts st_prd_plan) \<noteq> None \<or> prd_path (artifacts st_prd_plan) \<noteq> None"
    using w1 h8 p(1) by simp
  have c6: "0 < tasks_total (execution st_exec_done) \<and>
      tasks_total (execution st_exec_done) \<le> tasks_completed (execution st_exec_done)"
    using w2 h7 x(1) by simp
  show ?thesis
    using h1 h2 h4 h5 h7 h8 c1 c2 c3 c4 c5 c6 p(1,2) x(1,2,3) by simp
qed

text \<open>
  Claim C4. From \<open>cancelled\<close>, with a target of the cancelled row (\<open>team-plan\<close> or
  \<open>team-exec\<close>), \<open>transitionTeamPhase\<close> succeeds only when
  \<open>cancel.preserve_for_resume\<close> is set; without it the result is \<open>ok = False\<close>, the input
  state and the reason \<open>Cannot resume from cancelled: preserve_for_resume is not set\<close>.
  With it the state is reactivated (\<open>active = True\<close>, \<open>completed_at\<close> null) and then
  handed to the phase marker, with the caller's reason when one was passed and
  \<open>resumed-from-cancelled\<close> otherwise; a successful resume leaves the state active, not
  completed, in the new phase, with one new history entry carrying that reason (an empty
  caller reason is dropped by the marker, as any empty reason is).
\<close>

theorem transitionTeamPhase_resume:
  assumes "phase st = cancelled" and "next = team_plan \<or> next = team_exec"
  shows "(ok (transitionTeamPhase now st next rsn) \<longrightarrow> preserve_for_resume (cancel st)) \<and>
         (\<not> preserve_for_resume (cancel st) \<longrightarrow>
            transitionTeamPhase now st next rsn =
              \<lparr> ok = False, state = st,
                reason = Some ''Cannot resume from cancelled: preserve_for_resume is not set'' \<rparr>) \<and>
         (preserve_for_resume (cancel st) \<longrightarrow>
            transitionTeamPhase now st next rsn =
              markTeamPhase now (st\<lparr> active := True, completed_at := None \<rparr>) next
                (Some (case rsn of Some r \<Rightarrow> r | None \<Rightarrow> ''resumed-from-cancelled''))) \<and>
         (ok (transitionTeamPhase now st next rsn) \<longrightarrow>
            phase (state (transitionTeamPhase now st next rsn)) = next \<and>
            active (state (transitionTeamPhase now st next rsn)) = True \<and>
            completed_at (state (transitionTeamPhase now st next rsn)) = None \<and>
            phase_history (state (transitionTeamPhase now st next rsn)) =
              phase_history st @
                [\<lparr> entry_phase = next, entered_at = now 0,
                    entry_reason =
                      (case rsn of None \<Rightarrow> Some ''resumed-from-cancelled''
                       | Some r \<Rightarrow> if r = [] then None else Some r) \<rparr>])"
proof -
  have al: "next \<in> set (ALLOWED cancelled)"
    using assms(2) by auto
  have eq: "transitionTeamPhase now st next rsn =
     (if \<not> preserve_for_resume (cancel st) then
        \<lparr> ok = False, state = st,
          reason = Some ''Cannot resume from cancelled: preserve_for_resume is not set'' \<rparr>
      else markTeamPhase now (st\<lparr> active := True, completed_at := None \<rparr>) next
             (case rsn of Some r \<Rightarrow> Some r | None \<Rightarrow> Some ''resumed-from-cancelled''))"
    by (rule transitionTeamPhase_cancelled [OF assms(1) al])
  have rs: "(case rsn of Some r \<Rightarrow> Some r | None \<Rightarrow> Some ''resumed-from-cancelled'') =
            Some (case rsn of Some r \<Rightarrow> r | None \<Rightarrow> ''resumed-from-cancelled'')"
    by (cases rsn) simp_all
  have a: "ok (transitionTeamPhase now st next rsn) \<longrightarrow> preserve_for_resume (cancel st)"
    by (simp add: eq)
  have b: "\<not> preserve_for_resume (cancel st) \<longrightarrow>
            transitionTeamPhase now st next rsn =
              \<lparr> ok = False, state = st,
                reason = Some ''Cannot resume from cancelled: preserve_for_resume is not set'' \<rparr>"
    by (simp add: eq)
  have c: "preserve_for_resume (cancel st) \<longrightarrow>
            transitionTeamPhase now st next rsn =
              markTeamPhase now (st\<lparr> active := True, completed_at := None \<rparr>) next
                (Some (case rsn of Some r \<Rightarrow> r | None \<Rightarrow> ''resumed-from-cancelled''))"
    by (simp add: eq rs)
  have d: "ok (transitionTeamPhase now st next rsn) \<longrightarrow>
            phase (state (transitionTeamPhase now st next rsn)) = next \<and>
            active (state (transitionTeamPhase now st next rsn)) = True \<and>
            completed_at (state (transitionTeamPhase now st next rsn)) = None \<and>
            phase_history (state (transitionTeamPhase now st next rsn)) =
              phase_history st @
                [\<lparr> entry_phase = next, entered_at = now 0,
                    entry_reason =
                      (case rsn of None \<Rightarrow> Some ''resumed-from-cancelled''
                       | Some r \<Rightarrow> if r = [] then None else Some r) \<rparr>]"
  proof
    assume okr: "ok (transitionTeamPhase now st next rsn)"
    from a okr have pr: "preserve_for_resume (cancel st)"
      by (rule mp)
    from c pr have run: "transitionTeamPhase now st next rsn =
        markTeamPhase now (st\<lparr> active := True, completed_at := None \<rparr>) next
          (Some (case rsn of Some r \<Rightarrow> r | None \<Rightarrow> ''resumed-from-cancelled''))"
      by (rule mp)
    have ne: "phase (st\<lparr> active := True, completed_at := None \<rparr>) \<noteq> next"
      using assms by auto
    have okm: "ok (markTeamPhase now (st\<lparr> active := True, completed_at := None \<rparr>) next
          (Some (case rsn of Some r \<Rightarrow> r | None \<Rightarrow> ''resumed-from-cancelled'')))"
      using okr run by simp
    note shape = markTeamPhase_accepted_plain [OF ne assms(2) okm]
    show "phase (state (transitionTeamPhase now st next rsn)) = next \<and>
            active (state (transitionTeamPhase now st next rsn)) = True \<and>
            completed_at (state (transitionTeamPhase now st next rsn)) = None \<and>
            phase_history (state (transitionTeamPhase now st next rsn)) =
              phase_history st @
                [\<lparr> entry_phase = next, entered_at = now 0,
                    entry_reason =
                      (case rsn of None \<Rightarrow> Some ''resumed-from-cancelled''
                       | Some r \<Rightarrow> if r = [] then None else Some r) \<rparr>]"
      unfolding run shape by (cases rsn) simp_all
  qed
  show ?thesis
    by (rule conjI [OF a conjI [OF b conjI [OF c d]]])
qed

theorem transitionTeamPhase_resume_witness:
  "(phase st_cancelled = cancelled \<and> (team_plan = team_plan \<or> team_plan = team_exec)) \<and>
   preserve_for_resume (cancel st_cancelled) \<and>
   ok (transitionTeamPhase clock0 st_cancelled team_plan None) \<and>
   phase (state (transitionTeamPhase clock0 st_cancelled team_plan None)) = team_plan \<and>
   active (state (transitionTeamPhase clock0 st_cancelled team_plan None)) = True \<and>
   completed_at (state (transitionTeamPhase clock0 st_cancelled team_plan None)) = None \<and>
   map entry_reason (phase_history (state (transitionTeamPhase clock0 st_cancelled team_plan None)))
     = [None, Some ''cancel-requested'', Some ''resumed-from-cancelled''] \<and>
   phase st_cancelled_for_good = cancelled \<and>
   \<not> preserve_for_resume (cancel st_cancelled_for_good) \<and>
   transitionTeamPhase clock0 st_cancelled_for_good team_plan None =
     \<lparr> ok = False, state = st_cancelled_for_good,
       reason = Some ''Cannot resume from cancelled: preserve_for_resume is not set'' \<rparr>"
proof -
  have h1: "phase st_cancelled = cancelled" by (simp add: st_cancelled_fields)
  have h2: "team_plan = team_plan \<or> team_plan = team_exec" by simp
  have h3: "phase st_cancelled_for_good = cancelled" by (simp add: st_cancelled_fields)
  have okm: "ok (markTeamPhase clock0 (st_cancelled\<lparr> active := True, completed_at := None \<rparr>)
              team_plan (Some ''resumed-from-cancelled''))"
    by (simp add: markTeamPhase_def nowIso_def Let_def st_cancelled_fields st0_fields)
  have hist: "map entry_reason (phase_history st_cancelled) = [None, Some ''cancel-requested'']"
    by (simp add: st_cancelled_def requestTeamCancel_def st0_def initTeamPipelineState_def
          nowIso_def)
  have pres: "preserve_for_resume (cancel st_cancelled)"
    "\<not> preserve_for_resume (cancel st_cancelled_for_good)"
    by (simp_all add: st_cancelled_fields)
  have ok1: "ok (transitionTeamPhase clock0 st_cancelled team_plan None)"
    using okm by (simp add: transitionTeamPhase_cancelled [OF h1] pres)
  note resumed = transitionTeamPhase_resume [OF h1 h2, of clock0 None,
      THEN conjunct2, THEN conjunct2, THEN conjunct2, THEN mp, OF ok1]
  from resumed
  have shape: "phase (state (transitionTeamPhase clock0 st_cancelled team_plan None)) = team_plan"
    "active (state (transitionTeamPhase clock0 st_cancelled team_plan None)) = True"
    "completed_at (state (transitionTeamPhase clock0 st_cancelled team_plan None)) = None"
    "phase_history (state (transitionTeamPhase clock0 st_cancelled team_plan None)) =
       phase_history st_cancelled @
         [\<lparr> entry_phase = team_plan, entered_at = clock0 0,
             entry_reason = Some ''resumed-from-cancelled'' \<rparr>]"
    by simp_all
  note refused = transitionTeamPhase_resume [OF h3 h2, of clock0 None,
      THEN conjunct2, THEN conjunct1, THEN mp, OF pres(2)]
  show ?thesis
    using h1 h3 pres ok1 shape hist refused by simp
qed

text \<open>
  Claim C9, as amended. Requesting the current phase again through
  \<open>transitionTeamPhase\<close> is refused by the legality table, which has no phase in its own
  row: the result is \<open>ok = False\<close> with the reason \<open>Illegal transition: <p> -> <p>\<close>, the
  same state and no history growth, for every phase, \<open>team-fix\<close> included. (The
  \<open>ok = True\<close> no-op is what \<open>markTeamPhase\<close> does when it is called directly.)
\<close>

theorem transitionTeamPhase_same_phase:
  "transitionTeamPhase now st (phase st) rsn =
     \<lparr> ok = False, state = st,
       reason = Some (''Illegal transition: '' @ phase_str (phase st) @ '' -> ''
                       @ phase_str (phase st)) \<rparr> \<and>
   phase_history (state (transitionTeamPhase now st (phase st) rsn)) = phase_history st"
proof -
  have "transitionTeamPhase now st (phase st) rsn =
     \<lparr> ok = False, state = st,
       reason = Some (''Illegal transition: '' @ phase_str (phase st) @ '' -> ''
                       @ phase_str (phase st)) \<rparr>"
    by (rule transitionTeamPhase_illegal [OF ALLOWED_irrefl])
  then show ?thesis by simp
qed

text \<open>
  Claim C9 as it was stated promises \<open>ok = True\<close>. For the fresh session, in
  \<open>team-plan\<close>, the request for \<open>team-plan\<close> returns \<open>ok = False\<close>.
\<close>

theorem transitionTeamPhase_same_phase_counterexample:
  "phase st0 = team_plan \<and>
   ok (transitionTeamPhase clock0 st0 (phase st0) None) = False \<and>
   reason (transitionTeamPhase clock0 st0 (phase st0) None) =
     Some ''Illegal transition: team-plan -> team-plan''"
proof -
  have "transitionTeamPhase clock0 st0 (phase st0) None =
     \<lparr> ok = False, state = st0,
       reason = Some (''Illegal transition: '' @ phase_str (phase st0) @ '' -> ''
                       @ phase_str (phase st0)) \<rparr>"
    by (rule transitionTeamPhase_illegal [OF ALLOWED_irrefl])
  then show ?thesis by (simp add: st0_fields)
qed

section \<open>Cancellation\<close>

text \<open>
  Claim C7. \<open>requestTeamCancel\<close> consults neither the phase nor the legality table: for
  every input state, terminal or not, the result has \<open>cancel.requested = True\<close>,
  \<open>cancel.requested_at\<close> set, \<open>cancel.preserve_for_resume\<close> equal to the argument
  (\<open>True\<close> when it is omitted), \<open>phase = cancelled\<close>, \<open>active = False\<close>, \<open>completed_at\<close>
  and \<open>updated_at\<close> set from the clock, exactly one history entry
  \<open>{phase: cancelled, reason: cancel-requested}\<close> appended, and every other field as in
  the input.
\<close>

theorem requestTeamCancel_override:
  "(let r = requestTeamCancel now st preserveForResume in
     requested (cancel r) = True \<and>
     requested_at (cancel r) = Some (now 0) \<and>
     preserve_for_resume (cancel r) =
       (case preserveForResume of Some b \<Rightarrow> b | None \<Rightarrow> True) \<and>
     phase r = cancelled \<and>
     active r = False \<and>
     completed_at r = Some (now 1) \<and>
     updated_at r = now 2 \<and>
     phase_history r = phase_history st @
       [\<lparr> entry_phase = cancelled, entered_at = now 3,
           entry_reason = Some ''cancel-requested'' \<rparr>] \<and>
     schema_version r = schema_version st \<and>
     mode r = mode st \<and>
     session_id r = session_id st \<and>
     project_path r = project_path st \<and>
     iteration r = iteration st \<and>
     max_iterations r = max_iterations st \<and>
     artifacts r = artifacts st \<and>
     execution r = execution st \<and>
     fix_loop r = fix_loop st \<and>
     started_at r = started_at st)"
  by (simp add: requestTeamCancel_def nowIso_def Let_def eval_nat_numeral)

section \<open>Invariants over sequences of calls\<close>

lemma lifecycle_init:
  "lifecycle_ok (initTeamPipelineState now v directory sessionId pp mi)"
  by (simp add: lifecycle_ok_def initTeamPipelineState_def nowIso_def)

lemma lifecycle_cancel: "lifecycle_ok (requestTeamCancel now st p)"
  by (simp add: lifecycle_ok_def requestTeamCancel_def nowIso_def)

lemma lifecycle_mark:
  assumes "active st" and "completed_at st = None" and "phase st \<noteq> nextPhase"
  shows "lifecycle_ok (state (markTeamPhase now st nextPhase rsn))"
  using assms
  by (cases nextPhase) (simp_all add: lifecycle_ok_def markTeamPhase_def nowIso_def Let_def)

lemma lifecycle_transition:
  assumes inv: "lifecycle_ok st"
  shows "lifecycle_ok (state (transitionTeamPhase now st next rsn))"
proof (cases "next \<in> set (ALLOWED (phase st))")
  case False
  then show ?thesis
    using inv by (simp add: transitionTeamPhase_illegal)
next
  case allowed: True
  show ?thesis
  proof (cases "phase st = cancelled")
    case True
    with allowed have al: "next \<in> set (ALLOWED cancelled)" by simp
    then have ne: "phase (st\<lparr> active := True, completed_at := None \<rparr>) \<noteq> next"
      using True by auto
    have "lifecycle_ok (state (markTeamPhase now (st\<lparr> active := True, completed_at := None \<rparr>)
            next (case rsn of Some r \<Rightarrow> Some r | None \<Rightarrow> Some ''resumed-from-cancelled'')))"
      by (rule lifecycle_mark [OF _ _ ne]) simp_all
    then show ?thesis
      using inv by (simp add: transitionTeamPhase_cancelled [OF True al])
  next
    case False
    have nonterm: "phase st \<noteq> complete" "phase st \<noteq> failed"
      using allowed by auto
    with False inv have live: "active st" "completed_at st = None"
      by (auto simp add: lifecycle_ok_def)
    have ne: "phase st \<noteq> next"
      using allowed ALLOWED_irrefl [of "phase st"] by auto
    have "lifecycle_ok (state (markTeamPhase now st next rsn))"
      by (rule lifecycle_mark [OF live ne])
    then show ?thesis
      using inv by (simp add: transitionTeamPhase_guarded [OF False allowed])
  qed
qed

lemma lifecycle_step: "lifecycle_ok st \<Longrightarrow> lifecycle_ok (engine_step st c)"
  by (cases c) (simp_all add: lifecycle_transition lifecycle_cancel)

lemma lifecycle_run: "lifecycle_ok st \<Longrightarrow> lifecycle_ok (run_engine st cs)"
  by (induction cs arbitrary: st) (simp_all add: lifecycle_step)

lemma lifecycle_driver_step: "lifecycle_ok st \<Longrightarrow> lifecycle_ok (driver_step st e)"
  by (cases e) (simp_all add: lifecycle_step, simp_all add: lifecycle_ok_def)

lemma lifecycle_run_driver: "lifecycle_ok st \<Longrightarrow> lifecycle_ok (run_driver st es)"
  by (induction es arbitrary: st) (simp_all add: lifecycle_driver_step)

text \<open>
  Claim C5. The lifecycle invariant: \<open>active = False\<close> exactly when the phase is
  \<open>complete\<close>, \<open>failed\<close> or \<open>cancelled\<close>, and \<open>completed_at\<close> non-null exactly when
  \<open>active = False\<close>. The initial state has it; \<open>transitionTeamPhase\<close> keeps it, from
  every state that has it, in whatever phase and with whatever artifacts and counters,
  and whether the call is accepted, rejected or turned into a failure;
  \<open>requestTeamCancel\<close> establishes it from any state at all. So every state reached from
  \<open>initTeamPipelineState\<close> by a sequence of \<open>transitionTeamPhase\<close> and
  \<open>requestTeamCancel\<close> calls has it, also when the executor writes artifacts and progress
  counters between the calls, which is what lets a run leave \<open>team-prd\<close> and reach
  \<open>complete\<close> or \<open>failed\<close>.
\<close>

theorem lifecycle_invariant:
  "lifecycle_ok (initTeamPipelineState now v directory sessionId pp mi) \<and>
   (lifecycle_ok st \<longrightarrow> lifecycle_ok (state (transitionTeamPhase now st next rsn))) \<and>
   lifecycle_ok (requestTeamCancel now st p) \<and>
   (lifecycle_ok st \<longrightarrow> lifecycle_ok (run_engine st calls)) \<and>
   (lifecycle_ok st \<longrightarrow> lifecycle_ok (run_driver st events)) \<and>
   (let s = run_engine (initTeamPipelineState now v directory sessionId pp mi) calls in
     (active s = False) = (phase s \<in> {complete, failed, cancelled}) \<and>
     (completed_at s \<noteq> None) = (active s = False)) \<and>
   (let s = run_driver (initTeamPipelineState now v directory sessionId pp mi) events in
     (active s = False) = (phase s \<in> {complete, failed, cancelled}) \<and>
     (completed_at s \<noteq> None) = (active s = False))"
proof -
  have a: "lifecycle_ok (initTeamPipelineState now v directory sessionId pp mi)"
    by (rule lifecycle_init)
  have b: "lifecycle_ok st \<longrightarrow> lifecycle_ok (state (transitionTeamPhase now st next rsn))"
    by (simp add: lifecycle_transition)
  have c: "lifecycle_ok (requestTeamCancel now st p)"
    by (rule lifecycle_cancel)
  have d: "lifecycle_ok st \<longrightarrow> lifecycle_ok (run_engine st calls)"
    by (simp add: lifecycle_run)
  have e: "lifecycle_ok st \<longrightarrow> lifecycle_ok (run_driver st events)"
    by (simp add: lifecycle_run_driver)
  have "lifecycle_ok (run_engine (initTeamPipelineState now v directory sessionId pp mi) calls)"
    by (rule lifecycle_run [OF lifecycle_init])
  then have f: "let s = run_engine (initTeamPipelineState now v directory sessionId pp mi) calls in
     (active s = False) = (phase s \<in> {complete, failed, cancelled}) \<and>
     (completed_at s \<noteq> None) = (active s = False)"
    by (simp add: lifecycle_ok_def Let_def)
  have "lifecycle_ok (run_driver (initTeamPipelineState now v directory sessionId pp mi) events)"
    by (rule lifecycle_run_driver [OF lifecycle_init])
  then have g: "let s = run_driver (initTeamPipelineState now v directory sessionId pp mi) events in
     (active s = False) = (phase s \<in> {complete, failed, cancelled}) \<and>
     (completed_at s \<noteq> None) = (active s = False)"
    by (simp add: lifecycle_ok_def Let_def)
  show ?thesis
    by (rule conjI [OF a conjI [OF b conjI [OF c conjI [OF d conjI [OF e conjI [OF f g]]]]]])
qed

lemma st_verify3_fields:
  "phase st_verify3 = team_verify"
  "fix_loop st_verify3 = \<lparr> attempt = 3, max_attempts = 3, last_failure_reason = None \<rparr>"
  "map entry_phase (phase_history st_verify3) = [team_plan]"
  "active st_verify3" "completed_at st_verify3 = None"
  by (simp_all add: st_verify3_def st0_fields)

lemma happy_path_phase: "phase (run_driver st0 happy_path) = complete"
  by (simp add: happy_path_def st0_def initTeamPipelineState_def transitionTeamPhase_def
        isAllowedTransition_def hasRequiredArtifactsForPhase_def markTeamPhase_def
        nowIso_def Let_def)

theorem lifecycle_invariant_witness:
  "lifecycle_ok st_verify3 \<and>
   phase (state (transitionTeamPhase clock0 st_verify3 complete None)) = complete \<and>
   active (state (transitionTeamPhase clock0 st_verify3 complete None)) = False \<and>
   completed_at (state (transitionTeamPhase clock0 st_verify3 complete None)) \<noteq> None \<and>
   lifecycle_ok st0 \<and>
   phase (run_driver st0 happy_path) = complete \<and>
   active (run_driver st0 happy_path) = False \<and>
   completed_at (run_driver st0 happy_path) \<noteq> None"
proof -
  have h1: "lifecycle_ok st_verify3"
    by (simp add: lifecycle_ok_def st_verify3_fields)
  have ph1: "phase (state (transitionTeamPhase clock0 st_verify3 complete None)) = complete"
    by (simp add: transitionTeamPhase_guarded st_verify3_fields hasRequiredArtifactsForPhase_def
          markTeamPhase_def nowIso_def Let_def)
  note step = lifecycle_invariant [of clock0 1 "''/repo''" "''session-1''" None None
      st_verify3 complete None None "[]" "[]",
      THEN conjunct2, THEN conjunct1, THEN mp, OF h1]
  from step ph1
  have done1: "active (state (transitionTeamPhase clock0 st_verify3 complete None)) = False"
    "completed_at (state (transitionTeamPhase clock0 st_verify3 complete None)) \<noteq> None"
    by (simp_all add: lifecycle_ok_def)
  note init = lifecycle_invariant [of clock0 1 "''/repo''" "''session-1''" None None
      st_verify3 complete None None "[]" happy_path, THEN conjunct1, folded st0_def]
  note run = lifecycle_invariant [of clock0 1 "''/repo''" "''session-1''" None None
      st0 complete None None "[]" happy_path,
      THEN conjunct2, THEN conjunct2, THEN conjunct2, THEN conjunct2, THEN conjunct1,
      THEN mp, OF init]
  from run happy_path_phase
  have done2: "active (run_driver st0 happy_path) = False"
    "completed_at (run_driver st0 happy_path) \<noteq> None"
    by (simp_all add: lifecycle_ok_def)
  show ?thesis
    using h1 ph1 done1 init happy_path_phase done2 by simp
qed

subsection \<open>The history only grows\<close>

lemma markTeamPhase_history_shape:
  assumes "phase st \<noteq> nextPhase \<or> nextPhase = team_fix"
  shows "\<exists>ext. phase_history (state (markTeamPhase now st nextPhase rsn)) =
                 phase_history st @ ext \<and>
               map entry_phase ext =
                 (if ok (markTeamPhase now st nextPhase rsn) then [nextPhase]
                  else [nextPhase, failed])"
    and "ok (markTeamPhase now st nextPhase rsn) \<or>
         reason (markTeamPhase now st nextPhase rsn) = Some ''Fix loop exceeded max_attempts''"
  using assms
  by (auto simp add: markTeamPhase_def nowIso_def Let_def)

lemma markTeamPhase_history_prefix:
  "prefix (phase_history st) (phase_history (state (markTeamPhase now st nextPhase rsn)))"
proof (cases "phase st \<noteq> nextPhase \<or> nextPhase = team_fix")
  case True
  from markTeamPhase_history_shape(1) [OF True, of now rsn] show ?thesis
    by (auto simp add: prefix_def)
next
  case False
  then show ?thesis
    by (simp add: markTeamPhase_noop)
qed

lemma transitionTeamPhase_rejected:
  assumes "next \<notin> set (ALLOWED (phase st)) \<or>
           (phase st = cancelled \<and> \<not> preserve_for_resume (cancel st)) \<or>
           (phase st \<noteq> cancelled \<and> \<not> hasRequiredArtifactsForPhase st next)"
  shows "ok (transitionTeamPhase now st next rsn) = False"
    and "reason (transitionTeamPhase now st next rsn) \<noteq> Some ''Fix loop exceeded max_attempts''"
    and "state (transitionTeamPhase now st next rsn) = st"
proof -
  consider
    (illegal) "next \<notin> set (ALLOWED (phase st))"
  | (resume) "next \<in> set (ALLOWED (phase st))" "phase st = cancelled"
      "\<not> preserve_for_resume (cancel st)"
  | (guard) "next \<in> set (ALLOWED (phase st))" "phase st \<noteq> cancelled"
      "\<not> hasRequiredArtifactsForPhase st next"
    using assms by blast
  then have "ok (transitionTeamPhase now st next rsn) = False \<and>
    reason (transitionTeamPhase now st next rsn) \<noteq> Some ''Fix loop exceeded max_attempts'' \<and>
    state (transitionTeamPhase now st next rsn) = st"
  proof cases
    case illegal
    then show ?thesis by (simp add: transitionTeamPhase_illegal)
  next
    case resume
    then show ?thesis by (simp add: transitionTeamPhase_cancelled)
  next
    case guard
    then show ?thesis by (simp add: transitionTeamPhase_guarded)
  qed
  then show "ok (transitionTeamPhase now st next rsn) = False"
    and "reason (transitionTeamPhase now st next rsn) \<noteq> Some ''Fix loop exceeded max_attempts''"
    and "state (transitionTeamPhase now st next rsn) = st"
    by simp_all
qed

lemma transitionTeamPhase_history_shape:
  "\<exists>ext. phase_history (state (transitionTeamPhase now st next rsn)) = phase_history st @ ext \<and>
         map entry_phase ext =
           (if ok (transitionTeamPhase now st next rsn) then [next]
            else if reason (transitionTeamPhase now st next rsn) =
                      Some ''Fix loop exceeded max_attempts''
                 then [next, failed]
                 else [])"
proof (cases "next \<notin> set (ALLOWED (phase st)) \<or>
           (phase st = cancelled \<and> \<not> preserve_for_resume (cancel st)) \<or>
           (phase st \<noteq> cancelled \<and> \<not> hasRequiredArtifactsForPhase st next)")
  case True
  note rej = transitionTeamPhase_rejected [OF True, of now rsn]
  show ?thesis
    by (simp add: rej)
next
  case False
  then have allowed: "next \<in> set (ALLOWED (phase st))" by blast
  have ne: "phase st \<noteq> next"
    using allowed ALLOWED_irrefl [of "phase st"] by auto
  show ?thesis
  proof (cases "phase st = cancelled")
    case True
    with allowed have al: "next \<in> set (ALLOWED cancelled)" by simp
    from True False have pres: "preserve_for_resume (cancel st)" by blast
    have run: "transitionTeamPhase now st next rsn =
        markTeamPhase now (st\<lparr> active := True, completed_at := None \<rparr>) next
          (case rsn of Some r \<Rightarrow> Some r | None \<Rightarrow> Some ''resumed-from-cancelled'')"
      by (simp add: transitionTeamPhase_cancelled [OF True al] pres)
    have mut: "phase (st\<lparr> active := True, completed_at := None \<rparr>) \<noteq> next \<or> next = team_fix"
      using ne by simp
    from markTeamPhase_history_shape [OF mut, of now
        "case rsn of Some r \<Rightarrow> Some r | None \<Rightarrow> Some ''resumed-from-cancelled''"]
    show ?thesis
      unfolding run by auto
  next
    case nc: False
    with False have guard: "hasRequiredArtifactsForPhase st next" by blast
    have run: "transitionTeamPhase now st next rsn = markTeamPhase now st next rsn"
      by (simp add: transitionTeamPhase_guarded [OF nc allowed] guard)
    have mut: "phase st \<noteq> next \<or> next = team_fix"
      using ne by simp
    from markTeamPhase_history_shape [OF mut, of now rsn]
    show ?thesis
      unfolding run by auto
  qed
qed

lemma requestTeamCancel_history:
  "phase_history (requestTeamCancel now st p) =
     phase_history st @
       [\<lparr> entry_phase = cancelled, entered_at = now 3,
           entry_reason = Some ''cancel-requested'' \<rparr>]"
  by (simp add: requestTeamCancel_def nowIso_def eval_nat_numeral)

lemma pipeline_step_prefix:
  "prefix (phase_history st) (phase_history (pipeline_step st c))"
proof (cases c)
  case (Engine e)
  show ?thesis
  proof (cases e)
    case (Transition now target rsn)
    from transitionTeamPhase_history_shape [of now st target rsn] show ?thesis
      unfolding Engine Transition by (auto simp add: prefix_def)
  next
    case (Cancel now p)
    show ?thesis
      unfolding Engine Cancel by (simp add: requestTeamCancel_history)
  qed
next
  case (Mark now target rsn)
  show ?thesis
    unfolding Mark by (simp add: markTeamPhase_history_prefix)
qed

lemma run_pipeline_prefix:
  "prefix (phase_history st) (phase_history (run_pipeline st cs))"
proof (induction cs arbitrary: st)
  case Nil
  show ?case by simp
next
  case (Cons c cs)
  have "prefix (phase_history st) (phase_history (pipeline_step st c))"
    by (rule pipeline_step_prefix)
  also have "prefix (phase_history (pipeline_step st c))
               (phase_history (run_pipeline (pipeline_step st c) cs))"
    by (rule Cons.IH)
  finally show ?case by simp
qed

text \<open>
  Claim C6. Over any sequence of \<open>transitionTeamPhase\<close>, \<open>markTeamPhase\<close> and
  \<open>requestTeamCancel\<close> calls the history a state starts with stays a prefix of the
  history it ends with: the length never decreases and no entry is changed. A single
  \<open>transitionTeamPhase\<close> call appends exactly the entry of the target when it is accepted,
  that entry and then the \<open>failed\<close> entry when the retry bound turns it into a failure,
  and nothing when it is rejected; the rejections are the illegal transition, the resume
  without \<open>preserve_for_resume\<close> and the guard failure, each of which returns the input
  state. \<open>requestTeamCancel\<close> appends exactly the \<open>cancelled\<close> entry.
\<close>

theorem phase_history_append_only:
  "prefix (phase_history st) (phase_history (run_pipeline st calls)) \<and>
   length (phase_history st) \<le> length (phase_history (run_pipeline st calls)) \<and>
   (\<exists>ext. phase_history (state (transitionTeamPhase now st next rsn)) = phase_history st @ ext \<and>
          map entry_phase ext =
            (if ok (transitionTeamPhase now st next rsn) then [next]
             else if reason (transitionTeamPhase now st next rsn) =
                       Some ''Fix loop exceeded max_attempts''
                  then [next, failed]
                  else [])) \<and>
   (next \<notin> set (ALLOWED (phase st)) \<or>
    (phase st = cancelled \<and> \<not> preserve_for_resume (cancel st)) \<or>
    (phase st \<noteq> cancelled \<and> \<not> hasRequiredArtifactsForPhase st next) \<longrightarrow>
      ok (transitionTeamPhase now st next rsn) = False \<and>
      reason (transitionTeamPhase now st next rsn) \<noteq> Some ''Fix loop exceeded max_attempts'' \<and>
      phase_history (state (transitionTeamPhase now st next rsn)) = phase_history st) \<and>
   phase_history (requestTeamCancel now st p) =
     phase_history st @
       [\<lparr> entry_phase = cancelled, entered_at = now 3,
           entry_reason = Some ''cancel-requested'' \<rparr>]"
proof (intro conjI impI)
  show "prefix (phase_history st) (phase_history (run_pipeline st calls))"
    by (rule run_pipeline_prefix)
  then show "length (phase_history st) \<le> length (phase_history (run_pipeline st calls))"
    by (rule prefix_length_le)
  show "\<exists>ext. phase_history (state (transitionTeamPhase now st next rsn)) = phase_history st @ ext \<and>
          map entry_phase ext =
            (if ok (transitionTeamPhase now st next rsn) then [next]
             else if reason (transitionTeamPhase now st next rsn) =
                       Some ''Fix loop exceeded max_attempts''
                  then [next, failed]
                  else [])"
    by (rule transitionTeamPhase_history_shape)
  show "phase_history (requestTeamCancel now st p) =
     phase_history st @
       [\<lparr> entry_phase = cancelled, entered_at = now 3,
           entry_reason = Some ''cancel-requested'' \<rparr>]"
    by (rule requestTeamCancel_history)
next
  assume rej: "next \<notin> set (ALLOWED (phase st)) \<or>
    (phase st = cancelled \<and> \<not> preserve_for_resume (cancel st)) \<or>
    (phase st \<noteq> cancelled \<and> \<not> hasRequiredArtifactsForPhase st next)"
  note facts = transitionTeamPhase_rejected [OF rej, of now rsn]
  show "ok (transitionTeamPhase now st next rsn) = False" by (rule facts(1))
  show "reason (transitionTeamPhase now st next rsn) \<noteq> Some ''Fix loop exceeded max_attempts''"
    by (rule facts(2))
  show "phase_history (state (transitionTeamPhase now st next rsn)) = phase_history st"
    by (simp add: facts(3))
qed

theorem phase_history_append_only_witness:
  "team_exec \<notin> set (ALLOWED (phase st0)) \<and>
   ok (transitionTeamPhase clock0 st0 team_exec None) = False \<and>
   phase_history (state (transitionTeamPhase clock0 st0 team_exec None)) = phase_history st0 \<and>
   ok (transitionTeamPhase clock0 st0 team_prd None) \<and>
   map entry_phase (phase_history (state (transitionTeamPhase clock0 st0 team_prd None))) =
     [team_plan, team_prd] \<and>
   ok (transitionTeamPhase clock0 st_verify3 team_fix None) = False \<and>
   reason (transitionTeamPhase clock0 st_verify3 team_fix None) =
     Some ''Fix loop exceeded max_attempts'' \<and>
   map entry_phase (phase_history (state (transitionTeamPhase clock0 st_verify3 team_fix None))) =
     [team_plan, team_fix, failed] \<and>
   prefix (phase_history st0)
     (phase_history (run_pipeline st0
        [Engine (Transition clock0 team_prd None), Mark clock0 team_fix None,
         Engine (Cancel clock0 None)]))"
proof -
  have h: "team_exec \<notin> set (ALLOWED (phase st0))"
    by (simp add: st0_fields)
  note rejected = phase_history_append_only [of st0 "[]" clock0 team_exec None None,
      THEN conjunct2, THEN conjunct2, THEN conjunct2, THEN conjunct1, THEN mp, OF disjI1, OF h]
  have ok1: "ok (transitionTeamPhase clock0 st0 team_prd None)"
    by (simp add: transitionTeamPhase_guarded st0_fields hasRequiredArtifactsForPhase_def
          markTeamPhase_def nowIso_def Let_def)
  from phase_history_append_only [of st0 "[]" clock0 team_prd None None,
      THEN conjunct2, THEN conjunct2, THEN conjunct1] ok1
  have accepted:
    "map entry_phase (phase_history (state (transitionTeamPhase clock0 st0 team_prd None))) =
       [team_plan, team_prd]"
    by (auto simp add: st0_fields)
  have bound: "ok (transitionTeamPhase clock0 st_verify3 team_fix None) = False"
    "reason (transitionTeamPhase clock0 st_verify3 team_fix None) =
       Some ''Fix loop exceeded max_attempts''"
    by (simp_all add: transitionTeamPhase_guarded st_verify3_fields
          hasRequiredArtifactsForPhase_def markTeamPhase_def nowIso_def Let_def)
  from phase_history_append_only [of st_verify3 "[]" clock0 team_fix None None,
      THEN conjunct2, THEN conjunct2, THEN conjunct1] bound
  have exceeded:
    "map entry_phase (phase_history (state (transitionTeamPhase clock0 st_verify3 team_fix None)))
       = [team_plan, team_fix, failed]"
    by (auto simp add: st_verify3_fields)
  note grows = phase_history_append_only [of st0
      "[Engine (Transition clock0 team_prd None), Mark clock0 team_fix None,
        Engine (Cancel clock0 None)]" clock0 team_prd None None, THEN conjunct1]
  show ?thesis
    using h rejected ok1 accepted bound exceeded grows by simp
qed

end
